theory Spec2Isabelle
  imports Main "HOL-Library.Char_ord" "HOL-Library.List_Lexorder"
begin

section \<open>FixBot: the comment poster, the log fetcher and the patch generator\<close>

text \<open>
  A shallow embedding of the three scripts under \<^verbatim>\<open>.github/scripts\<close>.

  Conventions.
  \<^item> A Python \<^verbatim>\<open>str\<close> is a \<open>string\<close>; one \<open>char\<close> stands for one code point
    below 256. Every literal and every character class of the scripts is ASCII.
  \<^item> The platform is POSIX: \<^verbatim>\<open>os.path.join\<close> joins with \<^verbatim>\<open>/\<close> and \<^verbatim>\<open>os.linesep\<close>
    is the line feed.
  \<^item> A file system resolves each path to the file that it names, so that two
    spellings of one file share a node, and it may refuse an access with an exception.
  \<^item> An uncaught exception ends a process with exit status 1.
\<close>

subsection \<open>Characters and strings\<close>

definition LF :: char where "LF = CHR 0x0A"
definition CR :: char where "CR = CHR 0x0D"
definition quote :: char where "quote = CHR 0x27"

definition code :: "char \<Rightarrow> nat" where
  "code c = of_char c"

text \<open>\<^verbatim>\<open>[A-Za-z0-9_]\<close>\<close>

definition word_char :: "char \<Rightarrow> bool" where
  "word_char c \<longleftrightarrow>
     (let n = code c in
      (65 \<le> n \<and> n \<le> 90) \<or> (97 \<le> n \<and> n \<le> 122) \<or> (48 \<le> n \<and> n \<le> 57) \<or> n = 95)"

text \<open>\<^verbatim>\<open>[A-Za-z0-9_\-\.]\<close>\<close>

definition dist_char :: "char \<Rightarrow> bool" where
  "dist_char c \<longleftrightarrow> word_char c \<or> c = CHR ''-'' \<or> c = CHR ''.''"

text \<open>\<^verbatim>\<open>[A-Za-z0-9_\-\/]\<close>\<close>

definition path_char :: "char \<Rightarrow> bool" where
  "path_char c \<longleftrightarrow> word_char c \<or> c = CHR ''-'' \<or> c = CHR ''/''"

text \<open>\<^verbatim>\<open>[a-z0-9_]\<close>\<close>

definition lower_word_char :: "char \<Rightarrow> bool" where
  "lower_word_char c \<longleftrightarrow>
     (let n = code c in (97 \<le> n \<and> n \<le> 122) \<or> (48 \<le> n \<and> n \<le> 57) \<or> n = 95)"

text \<open>
  \<^verbatim>\<open>str.lower\<close>, one character at a time: the ASCII capitals and the Latin-1 capitals
  (\<^verbatim>\<open>U+00C0\<close> to \<^verbatim>\<open>U+00DE\<close> without the multiplication sign) move up by 32.
\<close>

definition lower_char :: "char \<Rightarrow> char" where
  "lower_char c =
     (let n = code c in
      if (65 \<le> n \<and> n \<le> 90) \<or> (192 \<le> n \<and> n \<le> 222 \<and> n \<noteq> 215)
      then char_of (n + 32) else c)"

definition lower :: "string \<Rightarrow> string" where
  "lower s = map lower_char s"

text \<open>\<^verbatim>\<open>str.isspace\<close> on one character, as \<^verbatim>\<open>str.strip()\<close> uses it.\<close>

definition is_space :: "char \<Rightarrow> bool" where
  "is_space c \<longleftrightarrow>
     (let n = code c in (9 \<le> n \<and> n \<le> 13) \<or> (28 \<le> n \<and> n \<le> 32) \<or> n = 133 \<or> n = 160)"

definition strip :: "string \<Rightarrow> string" where
  "strip s = rev (dropWhile is_space (rev (dropWhile is_space s)))"

text \<open>\<^verbatim>\<open>line.rstrip("\n")\<close>\<close>

definition rstrip_nl :: "string \<Rightarrow> string" where
  "rstrip_nl s = rev (dropWhile (\<lambda>c. c = LF) (rev s))"

text \<open>The line boundaries of \<^verbatim>\<open>str.splitlines\<close> (\<^verbatim>\<open>\r\n\<close> counts as one).\<close>

definition line_boundary :: "char \<Rightarrow> bool" where
  "line_boundary c \<longleftrightarrow>
     (let n = code c in (10 \<le> n \<and> n \<le> 13) \<or> (28 \<le> n \<and> n \<le> 30) \<or> n = 133)"

fun splitlines_from :: "string \<Rightarrow> string \<Rightarrow> string list" where
  "splitlines_from cur [] = (if cur = [] then [] else [cur])"
| "splitlines_from cur [c] = (if line_boundary c then [cur] else [cur @ [c]])"
| "splitlines_from cur (c # d # cs) =
     (if c = CR \<and> d = LF then cur # splitlines_from [] cs
      else if line_boundary c then cur # splitlines_from [] (d # cs)
      else splitlines_from (cur @ [c]) (d # cs))"

definition splitlines :: "string \<Rightarrow> string list" where
  "splitlines s = splitlines_from [] s"

text \<open>
  Reading a file opened in text mode with the default \<^verbatim>\<open>newline=None\<close>: \<^verbatim>\<open>\r\n\<close> and
  a lone \<^verbatim>\<open>\r\<close> arrive as \<^verbatim>\<open>\n\<close>.
\<close>

fun universal_newlines :: "string \<Rightarrow> string" where
  "universal_newlines [] = []"
| "universal_newlines [c] = [if c = CR then LF else c]"
| "universal_newlines (c # d # cs) =
     (if c = CR \<and> d = LF then LF # universal_newlines cs
      else if c = CR then LF # universal_newlines (d # cs)
      else c # universal_newlines (d # cs))"

text \<open>\<^verbatim>\<open>"\n".join(xs)\<close>\<close>

fun join_nl :: "string list \<Rightarrow> string" where
  "join_nl [] = []"
| "join_nl [x] = x"
| "join_nl (x # y # ys) = x @ LF # join_nl (y # ys)"

text \<open>\<^verbatim>\<open>str(n)\<close> for a natural number, in decimal.\<close>

definition digit :: "nat \<Rightarrow> char" where
  "digit d = char_of (48 + d)"

fun str_nat :: "nat \<Rightarrow> string" where
  "str_nat n = (if n < 10 then [digit n] else str_nat (n div 10) @ [digit (n mod 10)])"

declare str_nat.simps [simp del]

definition str_int :: "int \<Rightarrow> string" where
  "str_int i = (if i < 0 then CHR ''-'' # str_nat (nat (- i)) else str_nat (nat i))"

subsection \<open>The regular expressions of the patch generator\<close>

text \<open>
  Each of the four patterns has the shape
  \<^verbatim>\<open>prefix ( [class]+ inner ) suffix\<close>
  with literal \<open>prefix\<close>, \<open>inner\<close> and \<open>suffix\<close>, and one capture group.
\<close>

record pattern =
  prefix :: string
  cls :: "char \<Rightarrow> bool"
  inner :: string
  suffix :: string

text \<open>Matching a literal at the head of the input; the result is the rest.\<close>

fun match_lit :: "string \<Rightarrow> string \<Rightarrow> string option" where
  "match_lit [] s = Some s"
| "match_lit (p # ps) [] = None"
| "match_lit (p # ps) (c # cs) = (if p = c then match_lit ps cs else None)"

text \<open>
  The greedy \<^verbatim>\<open>+\<close> with backtracking: the engine takes the longest run of class
  characters and gives characters back, one at a time and never the first, until the
  remainder of the pattern matches. The result is the captured group and the input
  after the match.
\<close>

fun backtrack :: "nat \<Rightarrow> string \<Rightarrow> string \<Rightarrow> string \<Rightarrow> (string \<times> string) option" where
  "backtrack 0 inn suf s = None"
| "backtrack (Suc k) inn suf s =
     (case match_lit (inn @ suf) (drop (Suc k) s) of
        Some rest \<Rightarrow> Some (take (Suc k) s @ inn, rest)
      | None \<Rightarrow> backtrack k inn suf s)"

definition match_at :: "pattern \<Rightarrow> string \<Rightarrow> (string \<times> string) option" where
  "match_at p s =
     (case match_lit (prefix p) s of
        None \<Rightarrow> None
      | Some s1 \<Rightarrow> backtrack (length (takeWhile (cls p) s1)) (inner p) (suffix p) s1)"

text \<open>
  \<^verbatim>\<open>re.findall\<close>: scan from the left; after a match the scan resumes where the match
  ended, otherwise one character further.
\<close>

function findall :: "pattern \<Rightarrow> string \<Rightarrow> string list" where
  "findall p [] = []"
| "findall p (c # cs) =
     (case match_at p (c # cs) of
        Some (g, rest) \<Rightarrow> g # findall p rest
      | None \<Rightarrow> findall p cs)"
  by pat_completeness auto
termination
proof (relation "measure (\<lambda>(p, s). length s)")
  show "wf (measure (\<lambda>(p :: pattern, s :: string). length s))"
    by simp
next
  fix p :: pattern and c :: char and cs :: string
  show "((p, cs), p, c # cs) \<in> measure (\<lambda>(p, s). length s)"
    by simp
next
  fix p :: pattern and c :: char and cs x2 g rest
  assume m: "match_at p (c # cs) = Some x2" and x2: "(g, rest) = x2"
  have lit: "length r \<le> length s" if "match_lit l s = Some r" for l s r
    using that by (induction l s rule: match_lit.induct) (auto split: if_splits)
  have bt: "backtrack k inn suf s = Some (h, r) \<Longrightarrow> k \<le> length s \<Longrightarrow> length r < length s"
    for k inn suf s h r
  proof (induction k)
    case 0
    then show ?case by simp
  next
    case (Suc k)
    show ?case
    proof (cases "match_lit (inn @ suf) (drop (Suc k) s)")
      case None
      with Suc show ?thesis by simp
    next
      case (Some r')
      with Suc.prems have "r = r'" by simp
      moreover from Some have "length r' \<le> length (drop (Suc k) s)" by (rule lit)
      ultimately show ?thesis using Suc.prems(2) by simp
    qed
  qed
  from m x2 obtain s1 where s1: "match_lit (prefix p) (c # cs) = Some s1"
    and b: "backtrack (length (takeWhile (cls p) s1)) (inner p) (suffix p) s1 = Some (g, rest)"
    by (auto simp: match_at_def split: option.splits)
  have "length (takeWhile (cls p) s1) \<le> length s1"
    by (rule length_takeWhile_le)
  with b have "length rest < length s1" by (rule bt)
  moreover from s1 have "length s1 \<le> length (c # cs)" by (rule lit)
  ultimately show "((p, rest), p, c # cs) \<in> measure (\<lambda>(p, s). length s)"
    by simp
qed

definition module_not_found_re :: pattern where
  "module_not_found_re =
     \<lparr>prefix = ''ModuleNotFoundError: No module named '' @ [quote],
      cls = word_char, inner = [], suffix = [quote]\<rparr>"

definition import_error_re :: pattern where
  "import_error_re =
     \<lparr>prefix = ''ImportError: No module named '', cls = word_char, inner = [], suffix = []\<rparr>"

definition no_distribution_re :: pattern where
  "no_distribution_re =
     \<lparr>prefix = ''No matching distribution found for '', cls = dist_char,
      inner = [], suffix = []\<rparr>"

definition fatal_header_re :: pattern where
  "fatal_header_re =
     \<lparr>prefix = ''fatal error: '', cls = path_char, inner = ''.h'',
      suffix = '': No such file or directory''\<rparr>"

subsection \<open>Detection\<close>

text \<open>The three loops that fill the set \<^verbatim>\<open>missing\<close>, then \<^verbatim>\<open>sorted(missing)\<close>.\<close>

definition add_lowered :: "string list \<Rightarrow> string set \<Rightarrow> string set" where
  "add_lowered ms missing = fold (\<lambda>m acc. insert (lower m) acc) ms missing"

definition missing_modules :: "string \<Rightarrow> string set" where
  "missing_modules logs =
     add_lowered (findall no_distribution_re logs)
       (add_lowered (findall import_error_re logs)
         (add_lowered (findall module_not_found_re logs) {}))"

definition missing_list :: "string \<Rightarrow> string list" where
  "missing_list logs = sorted_list_of_set (missing_modules logs)"

text \<open>The loop that fills \<^verbatim>\<open>missing_headers\<close>.\<close>

definition add_new :: "string list \<Rightarrow> string list \<Rightarrow> string list" where
  "add_new hdrs acc = fold (\<lambda>hdr acc. if hdr \<in> set acc then acc else acc @ [hdr]) hdrs acc"

definition missing_headers :: "string \<Rightarrow> string list" where
  "missing_headers logs = add_new (findall fatal_header_re logs) []"

subsection \<open>Errors and the file system\<close>

text \<open>The exceptions that the scripts can let escape.\<close>

datatype error =
    FileNotFoundError
  | IsADirectoryError
  | PermissionError
  | OSError
  | UnicodeEncodeError
  | JSONDecodeError
  | AttributeError
  | TypeError
  | RequestException

text \<open>
  A node is a regular file with its content or a directory. A file system has three
  parts.
  \<^item> \<open>canon\<close> resolves a path, as it is spelled, to the file that it names: the
    paths \<^verbatim>\<open>ci.log\<close> and \<^verbatim>\<open>./ci.log\<close> have one image.
  \<^item> \<open>nodes\<close> holds what is stored, under the resolved paths: the files and
    directories that \<^verbatim>\<open>os.path.exists\<close> finds.
  \<^item> \<open>refuses\<close> tells which accesses the system turns down, and with which
    exception, whatever is stored: creating a file in a directory that is missing or
    cannot be written, reading or writing a file without the permission, a full disk.

  The scripts create and remove regular files only, so \<open>canon\<close> and \<open>refuses\<close>
  stay as they are during a run. The empty path names no file.
\<close>

datatype node = File string | Dir

datatype access = Reading | Writing | Creating | Removing

record fsys =
  nodes :: "string \<Rightarrow> node option"
  canon :: "string \<Rightarrow> string"
  refuses :: "access \<Rightarrow> string \<Rightarrow> error option"

text \<open>\<^verbatim>\<open>os.path.exists\<close>\<close>

definition path_exists :: "fsys \<Rightarrow> string \<Rightarrow> bool" where
  "path_exists fs p \<longleftrightarrow> p \<noteq> [] \<and> nodes fs (canon fs p) \<noteq> None"

text \<open>\<^verbatim>\<open>os.path.join\<close> of two components.\<close>

definition path_join :: "string \<Rightarrow> string \<Rightarrow> string" where
  "path_join a b =
     (if take 1 b = ''/'' then b
      else if a = [] \<or> last a = CHR ''/'' then a @ b
      else a @ ''/'' @ b)"

text \<open>\<^verbatim>\<open>open(p, "r").read()\<close>\<close>

definition read_text :: "fsys \<Rightarrow> string \<Rightarrow> error + string" where
  "read_text fs p =
     (if p = [] then Inl FileNotFoundError
      else
        (case refuses fs Reading (canon fs p) of
           Some e \<Rightarrow> Inl e
         | None \<Rightarrow>
             (case nodes fs (canon fs p) of
                None \<Rightarrow> Inl FileNotFoundError
              | Some Dir \<Rightarrow> Inl IsADirectoryError
              | Some (File c) \<Rightarrow> Inr (universal_newlines c))))"

text \<open>
  \<^verbatim>\<open>open(p, "w")\<close> and \<^verbatim>\<open>open(p, "a")\<close> up to the point where the file is open: the
  result is the resolved path of the file.
\<close>

definition open_for_writing :: "fsys \<Rightarrow> string \<Rightarrow> error + string" where
  "open_for_writing fs p =
     (if p = [] then Inl FileNotFoundError
      else
        (case nodes fs (canon fs p) of
           Some Dir \<Rightarrow> Inl IsADirectoryError
         | Some (File c) \<Rightarrow>
             (case refuses fs Writing (canon fs p) of
                Some e \<Rightarrow> Inl e
              | None \<Rightarrow> Inr (canon fs p))
         | None \<Rightarrow>
             (case refuses fs Creating (canon fs p) of
                Some e \<Rightarrow> Inl e
              | None \<Rightarrow> Inr (canon fs p))))"

text \<open>The file system in which the file at a resolved path has a given content.\<close>

definition store :: "fsys \<Rightarrow> string \<Rightarrow> string \<Rightarrow> fsys" where
  "store fs q s = fs\<lparr>nodes := (nodes fs)(q \<mapsto> File s)\<rparr>"

text \<open>\<^verbatim>\<open>open(p, "a").write(s)\<close>\<close>

definition append_text :: "fsys \<Rightarrow> string \<Rightarrow> string \<Rightarrow> error + fsys" where
  "append_text fs p s =
     (case open_for_writing fs p of
        Inl e \<Rightarrow> Inl e
      | Inr q \<Rightarrow>
          (case nodes fs q of
             Some (File c) \<Rightarrow> Inr (store fs q (c @ s))
           | _ \<Rightarrow> Inr (store fs q s)))"

text \<open>\<^verbatim>\<open>os.remove\<close>\<close>

definition remove_file :: "fsys \<Rightarrow> string \<Rightarrow> error + fsys" where
  "remove_file fs p =
     (if p = [] then Inl FileNotFoundError
      else
        (case refuses fs Removing (canon fs p) of
           Some e \<Rightarrow> Inl e
         | None \<Rightarrow>
             (case nodes fs (canon fs p) of
                None \<Rightarrow> Inl FileNotFoundError
              | Some Dir \<Rightarrow> Inl IsADirectoryError
              | Some (File c) \<Rightarrow> Inr (fs\<lparr>nodes := (nodes fs)(canon fs p := None)\<rparr>))))"

subsection \<open>Diff fragments\<close>

definition make_new_file_diff :: "string option \<Rightarrow> string \<Rightarrow> string list \<Rightarrow> string" where
  "make_new_file_diff path relpath new_lines =
     (let header = [''--- /dev/null'', ''+++ b/'' @ relpath,
                    ''@@ -0,0 +1,'' @ str_nat (length new_lines) @ '' @@''];
          body = map (\<lambda>line. CHR ''+'' # rstrip_nl line) new_lines
      in join_nl (header @ body) @ [LF])"

text \<open>
  \<^verbatim>\<open>difflib.unified_diff(a, b, fromfile, tofile, lineterm="")\<close> with its default of three
  lines of context, on the inputs that \<^verbatim>\<open>write_requirements_patch\<close> passes: \<open>b\<close> is
  \<open>a\<close> followed by at least one more line. There the matcher of the library finds
  the whole of \<open>a\<close> as one block at the start of \<open>b\<close>, the operations are one
  \<^verbatim>\<open>equal\<close> (when \<open>a\<close> has lines) and one \<^verbatim>\<open>insert\<close>, and they form a single hunk
  that starts with the last three lines of \<open>a\<close>. On other inputs the definition does
  not stand for the library.
\<close>

definition format_range_unified :: "nat \<Rightarrow> nat \<Rightarrow> string" where
  "format_range_unified start stop =
     (let beginning = start + 1; len = stop - start in
      if len = 1 then str_nat beginning
      else if len = 0 then str_nat (beginning - 1) @ '','' @ str_nat len
      else str_nat beginning @ '','' @ str_nat len)"

definition unified_diff :: "string list \<Rightarrow> string list \<Rightarrow> string \<Rightarrow> string \<Rightarrow> string list" where
  "unified_diff a b fromfile tofile =
     (let n = length a; lo = n - 3 in
      [''--- '' @ fromfile, ''+++ '' @ tofile,
       ''@@ -'' @ format_range_unified lo n @ '' +'' @ format_range_unified lo (length b) @ '' @@'']
      @ map (\<lambda>line. CHR '' '' # line) (drop lo a)
      @ map (\<lambda>line. CHR ''+'' # line) (drop n b))"

definition make_update_file_diff ::
  "string \<Rightarrow> string \<Rightarrow> string list \<Rightarrow> string list \<Rightarrow> string" where
  "make_update_file_diff path relpath old_lines new_lines =
     join_nl (unified_diff old_lines new_lines (''a/'' @ relpath) (''b/'' @ relpath)) @ [LF]"

subsection \<open>The heuristic path of the patch generator\<close>

definition write_requirements_patch ::
  "string \<Rightarrow> string \<Rightarrow> string list \<Rightarrow> fsys \<Rightarrow> error + bool \<times> fsys" where
  "write_requirements_patch out_path repo_root missing fs =
     (if missing = [] then Inr (False, fs)
      else
        let req_path = path_join repo_root ''requirements.txt'';
            rel = ''requirements.txt''
        in
        if path_exists fs req_path then
          (case read_text fs req_path of
             Inl e \<Rightarrow> Inl e
           | Inr content \<Rightarrow>
               let old = splitlines content;
                   added = filter (\<lambda>m. m \<notin> set (map strip old)) missing
               in
               if added = [] then Inr (False, fs)
               else
                 (case append_text fs out_path
                         (make_update_file_diff req_path rel old (old @ added)) of
                    Inl e \<Rightarrow> Inl e
                  | Inr fs' \<Rightarrow> Inr (True, fs')))
        else
          (case append_text fs out_path (make_new_file_diff (Some req_path) rel missing) of
             Inl e \<Rightarrow> Inl e
           | Inr fs' \<Rightarrow> Inr (True, fs')))"

definition system_deps_lines :: "string list \<Rightarrow> string list" where
  "system_deps_lines hdrs =
     ''The following headers were reported missing during CI/compile:'' # hdrs"

definition write_system_deps_patch ::
  "string \<Rightarrow> string \<Rightarrow> string list \<Rightarrow> fsys \<Rightarrow> error + bool \<times> fsys" where
  "write_system_deps_patch out_path repo_root hdrs fs =
     (if hdrs = [] then Inr (False, fs)
      else
        let rel = ''.fixbot_system_deps.txt'';
            diff = make_new_file_diff (Some (path_join repo_root rel)) rel (system_deps_lines hdrs)
        in
        (case append_text fs out_path diff of
           Inl e \<Rightarrow> Inl e
         | Inr fs' \<Rightarrow> Inr (True, fs')))"

definition notice_lines :: "string list" where
  "notice_lines =
     [''FixBot could not identify an automatic fix.'', ''See .fixbot_logs.txt for details.'']"

text \<open>
  The result is the file system after the call, or the escaping exception with the
  file system as it was when the exception was raised.
\<close>

definition heuristics_make_patch ::
  "string \<Rightarrow> string \<Rightarrow> string \<Rightarrow> fsys \<Rightarrow> error \<times> fsys + fsys" where
  "heuristics_make_patch logs_path repo_root out_path fs =
     (case read_text fs logs_path of
        Inl e \<Rightarrow> Inl (e, fs)
      | Inr logs \<Rightarrow>
          let missing = missing_list logs;
              hdrs = missing_headers logs
          in
          (case (if path_exists fs out_path then remove_file fs out_path else Inr fs) of
             Inl e \<Rightarrow> Inl (e, fs)
           | Inr fs1 \<Rightarrow>
               (case write_requirements_patch out_path repo_root missing fs1 of
                  Inl e \<Rightarrow> Inl (e, fs1)
                | Inr (wrote1, fs2) \<Rightarrow>
                    (case write_system_deps_patch out_path repo_root hdrs fs2 of
                       Inl e \<Rightarrow> Inl (e, fs2)
                     | Inr (wrote2, fs3) \<Rightarrow>
                         if \<not> (wrote2 \<or> wrote1) then
                           (case append_text fs3 out_path
                                   (make_new_file_diff None ''.fixbot_notice.txt'' notice_lines) of
                              Inl e \<Rightarrow> Inl (e, fs3)
                            | Inr fs4 \<Rightarrow> Inr fs4)
                         else Inr fs3))))"

subsection \<open>JSON values, requests and process outcomes\<close>

text \<open>
  What \<^verbatim>\<open>json()\<close> of a response returns. An object is an association list in the order
  of its keys; \<^verbatim>\<open>JFloat\<close> keeps the literal of a number that is not an integer.
\<close>

datatype json =
    JNull
  | JBool bool
  | JInt int
  | JFloat string
  | JStr string
  | JArr "json list"
  | JObj "(string \<times> json) list"

text \<open>\<^verbatim>\<open>d.get(k)\<close> on a dict.\<close>

definition obj_get :: "(string \<times> json) list \<Rightarrow> string \<Rightarrow> json" where
  "obj_get kvs k = (case map_of kvs k of None \<Rightarrow> JNull | Some v \<Rightarrow> v)"

record request =
  req_method :: string
  req_url :: string
  req_headers :: "(string \<times> string) list"
  req_json :: "json option"

text \<open>
  A response: the status code, the body as text, and the body as \<^verbatim>\<open>json()\<close> returns
  it, \<open>None\<close> where \<^verbatim>\<open>json()\<close> raises because the body is not JSON.
\<close>

record response =
  status_code :: int
  resp_text :: string
  resp_json :: "json option"

text \<open>
  The network answers a request with a response, or the client raises. An argument of
  \<^verbatim>\<open>print\<close> is a string or a JSON value. An outcome holds the exit status, the calls
  of \<^verbatim>\<open>print\<close> to the standard stream, the lines written to the error stream by the
  script itself, the requests issued in order, and the exception that escaped, if one
  did.
\<close>

type_synonym network = "request \<Rightarrow> error + response"

datatype pyval = S string | J json

record outcome =
  exit_status :: int
  printed :: "pyval list list"
  warned :: "string list"
  sent :: "request list"
  uncaught :: "error option"

definition finished :: "int \<Rightarrow> pyval list list \<Rightarrow> string list \<Rightarrow> request list \<Rightarrow> outcome" where
  "finished st out err reqs =
     \<lparr>exit_status = st, printed = out, warned = err, sent = reqs, uncaught = None\<rparr>"

definition crashed :: "error \<Rightarrow> pyval list list \<Rightarrow> string list \<Rightarrow> request list \<Rightarrow> outcome" where
  "crashed e out err reqs =
     \<lparr>exit_status = 1, printed = out, warned = err, sent = reqs, uncaught = Some e\<rparr>"

text \<open>Truth of an optional string, and \<^verbatim>\<open>a or b\<close>.\<close>

definition truthy :: "string option \<Rightarrow> bool" where
  "truthy v \<longleftrightarrow> (case v of None \<Rightarrow> False | Some s \<Rightarrow> s \<noteq> [])"

definition py_or :: "string option \<Rightarrow> string option \<Rightarrow> string option" where
  "py_or a b = (if truthy a then a else b)"

text \<open>
  \<^verbatim>\<open>args.token or os.environ.get("GH_TOKEN") or os.environ.get("GITHUB_TOKEN")\<close>
\<close>

definition resolve_token :: "string option \<Rightarrow> (string \<Rightarrow> string option) \<Rightarrow> string option" where
  "resolve_token arg_token env = py_or (py_or arg_token (env ''GH_TOKEN'')) (env ''GITHUB_TOKEN'')"

definition auth_headers :: "string \<Rightarrow> (string \<times> string) list" where
  "auth_headers token =
     [(''Authorization'', ''token '' @ token), (''Accept'', ''application/vnd.github.v3+json'')]"

subsection \<open>The patch generator\<close>

definition prompt_head :: string where
  "prompt_head =
     ''You are a tool that outputs a minimal unified-diff patch to fix CI failures. ''
     @ ''Output ONLY the patch.'' @ [LF, LF] @ ''Logs:'' @ [LF]"

text \<open>
  The generative attempt. \<open>completion\<close> is \<open>None\<close> where the package cannot be
  imported; otherwise it maps the prompt to the text of the first choice, or to \<open>None\<close>
  where the call or the access to its result raises. The text comes with a flag that
  tells whether it can be encoded as UTF-8: a text with a lone surrogate cannot, and
  writing it raises after the output file was opened and emptied. Every exception is
  swallowed. The result is the file system after the attempt and whether the patch
  was written; if not, the heuristics run next.
\<close>

definition try_openai ::
  "string \<Rightarrow> string \<Rightarrow> (string \<Rightarrow> (string \<times> bool) option) option \<Rightarrow> fsys \<Rightarrow> bool \<times> fsys" where
  "try_openai logs_path out_path completion fs =
     (case completion of
        None \<Rightarrow> (False, fs)
      | Some create \<Rightarrow>
          (case read_text fs logs_path of
             Inl e \<Rightarrow> (False, fs)
           | Inr content \<Rightarrow>
               (case create (prompt_head @ take 8192 content) of
                  None \<Rightarrow> (False, fs)
                | Some (answer, encodable) \<Rightarrow>
                    let patch_text = strip answer in
                    if patch_text = [] then (False, fs)
                    else
                      (case open_for_writing fs out_path of
                         Inl e \<Rightarrow> (False, fs)
                       | Inr q \<Rightarrow>
                           if encodable then (True, store fs q patch_text)
                           else (False, store fs q [])))))"

definition generate_main ::
  "string \<Rightarrow> string \<Rightarrow> string \<Rightarrow> (string \<Rightarrow> string option)
     \<Rightarrow> (string \<Rightarrow> (string \<times> bool) option) option \<Rightarrow> fsys \<Rightarrow> outcome \<times> fsys" where
  "generate_main logs_path repo_root out_path env completion fs =
     (case (if truthy (env ''OPENAI_API_KEY'')
            then try_openai logs_path out_path completion fs else (False, fs)) of
        (True, fs') \<Rightarrow> (finished 0 [[S ''Wrote patch from OpenAI to'', S out_path]] [] [], fs')
      | (False, fs0) \<Rightarrow>
          (case heuristics_make_patch logs_path repo_root out_path fs0 of
             Inl (e, fs') \<Rightarrow> (crashed e [] [] [], fs')
           | Inr fs' \<Rightarrow>
               (finished 0 [[S ''Wrote heuristic patch to'', S out_path]] [] [], fs')))"

subsection \<open>The comment poster\<close>

definition comment_request :: "string \<Rightarrow> string \<Rightarrow> string \<Rightarrow> string \<Rightarrow> request" where
  "comment_request repo pr message token =
     \<lparr>req_method = ''POST'',
      req_url = ''https://api.github.com/repos/'' @ repo @ ''/issues/'' @ pr @ ''/comments'',
      req_headers = auth_headers token,
      req_json = Some (JObj [(''body'', JStr message)])\<rparr>"

definition comment_main ::
  "string \<Rightarrow> string \<Rightarrow> string \<Rightarrow> string option \<Rightarrow> (string \<Rightarrow> string option)
     \<Rightarrow> network \<Rightarrow> outcome" where
  "comment_main repo pr message arg_token env http =
     (case resolve_token arg_token env of
        None \<Rightarrow> finished 2 [] [''Error: GH_TOKEN or --token required''] []
      | Some token \<Rightarrow>
          if token = [] then finished 2 [] [''Error: GH_TOKEN or --token required''] []
          else
            let req = comment_request repo pr message token in
            (case http req of
               Inl e \<Rightarrow> crashed e [] [] [req]
             | Inr r \<Rightarrow>
                 if status_code r \<notin> {200, 201} then
                   finished 1 []
                     [''Failed to post comment: '' @ str_int (status_code r) @ '' '' @ resp_text r]
                     [req]
                 else
                   (case resp_json r of
                      None \<Rightarrow> crashed JSONDecodeError [] [] [req]
                    | Some (JObj kvs) \<Rightarrow>
                        finished 0 [[S ''Comment posted: '', J (obj_get kvs ''html_url'')]] [] [req]
                    | Some _ \<Rightarrow> crashed AttributeError [] [] [req])))"

subsection \<open>The log fetcher\<close>

definition get_request :: "string \<Rightarrow> string \<Rightarrow> request" where
  "get_request url token =
     \<lparr>req_method = ''GET'', req_url = url, req_headers = auth_headers token, req_json = None\<rparr>"

definition run_url :: "string \<Rightarrow> string \<Rightarrow> string" where
  "run_url repo run_id = ''https://api.github.com/repos/'' @ repo @ ''/actions/runs/'' @ run_id"

definition jobs_url :: "string \<Rightarrow> string \<Rightarrow> string" where
  "jobs_url repo run_id = run_url repo run_id @ ''/jobs''"

text \<open>
  \<^verbatim>\<open>{k: run_info.get(k) for k in ("id", "head_sha", "status", "conclusion", "event")}\<close>;
  only a dict has \<^verbatim>\<open>get\<close>.
\<close>

definition run_fields :: "string list" where
  "run_fields = [''id'', ''head_sha'', ''status'', ''conclusion'', ''event'']"

definition run_projection :: "json \<Rightarrow> error + json" where
  "run_projection run_info =
     (case run_info of
        JObj kvs \<Rightarrow> Inr (JObj (map (\<lambda>k. (k, obj_get kvs k)) run_fields))
      | _ \<Rightarrow> Inl AttributeError)"

text \<open>What a \<^verbatim>\<open>for\<close> loop over a JSON value visits.\<close>

definition iterate :: "json \<Rightarrow> error + json list" where
  "iterate v =
     (case v of
        JArr xs \<Rightarrow> Inr xs
      | JObj kvs \<Rightarrow> Inr (map (\<lambda>kv. JStr (fst kv)) kvs)
      | JStr s \<Rightarrow> Inr (map (\<lambda>c. JStr [c]) s)
      | _ \<Rightarrow> Inl TypeError)"

definition job_fields :: "string list" where
  "job_fields = [''id'', ''name'', ''status'', ''conclusion'', ''html_url'']"

definition job_projection :: "json \<Rightarrow> error + json" where
  "job_projection job =
     (case job of
        JObj kvs \<Rightarrow> Inr (JObj (map (\<lambda>k. (k, obj_get kvs k)) job_fields))
      | _ \<Rightarrow> Inl AttributeError)"

fun job_projections :: "json list \<Rightarrow> error + json list" where
  "job_projections [] = Inr []"
| "job_projections (job # jobs) =
     (case job_projection job of
        Inl e \<Rightarrow> Inl e
      | Inr j \<Rightarrow> (case job_projections jobs of Inl e \<Rightarrow> Inl e | Inr js \<Rightarrow> Inr (j # js)))"

text \<open>The loop that fills \<^verbatim>\<open>summary["jobs_summary"]\<close>.\<close>

definition jobs_summary :: "json \<Rightarrow> error + json list" where
  "jobs_summary jobs_info =
     (case jobs_info of
        JObj kvs \<Rightarrow>
          (case map_of kvs ''jobs'' of
             None \<Rightarrow> Inr []
           | Some v \<Rightarrow>
               (case iterate v of Inl e \<Rightarrow> Inl e | Inr jobs \<Rightarrow> job_projections jobs))
      | _ \<Rightarrow> Inr [])"

text \<open>The body of a response as the fetcher keeps it, with the warning it prints.\<close>

definition fetched :: "string \<Rightarrow> response \<Rightarrow> error + json \<times> string list" where
  "fetched what r =
     (if status_code r \<noteq> 200 then
        Inr (JObj [(''error'', JStr (resp_text r))],
             [''Warning: failed to fetch '' @ what @ '': '' @ str_int (status_code r)])
      else (case resp_json r of None \<Rightarrow> Inl JSONDecodeError | Some v \<Rightarrow> Inr (v, [])))"

text \<open>
  \<open>dump\<close> stands for \<^verbatim>\<open>json.dump(summary, f, indent=2, ensure_ascii=False)\<close> on a file
  opened as UTF-8: it gives the text written, or the exception with the text that
  reached the file before it. A string with a lone surrogate cannot be encoded.
\<close>

type_synonym dumper = "json \<Rightarrow> error \<times> string + string"

definition fetch_main ::
  "string \<Rightarrow> string \<Rightarrow> string \<Rightarrow> string option \<Rightarrow> (string \<Rightarrow> string option)
     \<Rightarrow> network \<Rightarrow> dumper \<Rightarrow> fsys \<Rightarrow> outcome \<times> fsys" where
  "fetch_main repo run_id out_path arg_token env http dump fs =
     (let no_token = (finished 2 [] [''Error: no GitHub token provided (GH_TOKEN or --token)''] [], fs)
      in
      case resolve_token arg_token env of
        None \<Rightarrow> no_token
      | Some token \<Rightarrow>
          if token = [] then no_token
          else
            let req1 = get_request (run_url repo run_id) token;
                req2 = get_request (jobs_url repo run_id) token
            in
            (case http req1 of
               Inl e \<Rightarrow> (crashed e [] [] [req1], fs)
             | Inr r \<Rightarrow>
                 (case fetched ''run info'' r of
                    Inl e \<Rightarrow> (crashed e [] [] [req1], fs)
                  | Inr (run_info, w1) \<Rightarrow>
                      (case http req2 of
                         Inl e \<Rightarrow> (crashed e [] w1 [req1, req2], fs)
                       | Inr r2 \<Rightarrow>
                           (case fetched ''jobs'' r2 of
                              Inl e \<Rightarrow> (crashed e [] w1 [req1, req2], fs)
                            | Inr (jobs_info, w2) \<Rightarrow>
                                (case run_projection run_info of
                                   Inl e \<Rightarrow> (crashed e [] (w1 @ w2) [req1, req2], fs)
                                 | Inr run \<Rightarrow>
                                     (case jobs_summary jobs_info of
                                        Inl e \<Rightarrow> (crashed e [] (w1 @ w2) [req1, req2], fs)
                                      | Inr js \<Rightarrow>
                                          let summary =
                                                JObj [(''run'', run), (''jobs_summary'', JArr js),
                                                      (''raw_run'', run_info), (''raw_jobs'', jobs_info)]
                                          in
                                          (case open_for_writing fs out_path of
                                             Inl e \<Rightarrow> (crashed e [] (w1 @ w2) [req1, req2], fs)
                                           | Inr q \<Rightarrow>
                                               (case dump summary of
                                                  Inl (e, partial) \<Rightarrow>
                                                    (crashed e [] (w1 @ w2) [req1, req2],
                                                     store fs q partial)
                                                | Inr text \<Rightarrow>
                                                    (finished 0 [] (w1 @ w2) [req1, req2],
                                                     store fs q text))))))))))"

section \<open>Reference definitions\<close>

text \<open>
  The definitions of this section are not translated from the scripts. They say what
  the statements below are about: the order of first appearance, the form of a diff
  fragment, the text that a run leaves behind.
\<close>

subsection \<open>Lists and JSON values\<close>

text \<open>
  Each element once, in the order in which the elements first appear: the first element,
  then the first appearances among the later elements that differ from it.
\<close>

fun first_appearances :: "'a list \<Rightarrow> 'a list" where
  "first_appearances [] = []"
| "first_appearances (x # xs) = x # first_appearances (filter (\<lambda>y. y \<noteq> x) xs)"

definition is_obj :: "json \<Rightarrow> bool" where
  "is_obj v = (case v of JObj kvs \<Rightarrow> True | _ \<Rightarrow> False)"

text \<open>
  A jobs body that the loop of the fetcher can walk: if it is an object with the key
  \<^verbatim>\<open>jobs\<close>, the value under that key is an array of objects.
\<close>

definition jobs_ok :: "json \<Rightarrow> bool" where
  "jobs_ok v =
     (case v of
        JObj kvs \<Rightarrow>
          (case map_of kvs ''jobs'' of
             None \<Rightarrow> True
           | Some (JArr xs) \<Rightarrow> list_all is_obj xs
           | Some _ \<Rightarrow> False)
      | _ \<Rightarrow> True)"

subsection \<open>Files and the text of a patch\<close>

text \<open>The content of the regular file that a path names, empty where there is none.\<close>

definition content :: "fsys \<Rightarrow> string \<Rightarrow> string" where
  "content fs p = (case nodes fs (canon fs p) of Some (File c) \<Rightarrow> c | _ \<Rightarrow> [])"

text \<open>
  What the environment must grant. A path names a readable file: it is not empty, a
  regular file is there and reading it is not refused. A path can be written: it is
  not empty, no directory is there, and neither writing nor creating the file is
  refused. It can be replaced: it can be written, and removing the file is not refused.
\<close>

definition readable :: "fsys \<Rightarrow> string \<Rightarrow> bool" where
  "readable fs p \<longleftrightarrow>
     p \<noteq> [] \<and> refuses fs Reading (canon fs p) = None
     \<and> (case nodes fs (canon fs p) of Some (File c) \<Rightarrow> True | _ \<Rightarrow> False)"

definition can_write :: "fsys \<Rightarrow> string \<Rightarrow> bool" where
  "can_write fs p \<longleftrightarrow>
     p \<noteq> [] \<and> nodes fs (canon fs p) \<noteq> Some Dir
     \<and> refuses fs Writing (canon fs p) = None \<and> refuses fs Creating (canon fs p) = None"

definition can_replace :: "fsys \<Rightarrow> string \<Rightarrow> bool" where
  "can_replace fs p \<longleftrightarrow> can_write fs p \<and> refuses fs Removing (canon fs p) = None"

text \<open>Two paths name the same file.\<close>

definition same_file :: "fsys \<Rightarrow> string \<Rightarrow> string \<Rightarrow> bool" where
  "same_file fs p p' \<longleftrightarrow> canon fs p = canon fs p'"

text \<open>The file system without the file that a path names.\<close>

definition cleared :: "fsys \<Rightarrow> string \<Rightarrow> fsys" where
  "cleared fs p =
     (if path_exists fs p then fs\<lparr>nodes := (nodes fs)(canon fs p := None)\<rparr> else fs)"

text \<open>The path of the dependency list under a root.\<close>

definition req_path :: "string \<Rightarrow> string" where
  "req_path repo_root = path_join repo_root ''requirements.txt''"

text \<open>
  What the heuristic path appends to the output file for the dependency list, as a
  function of the sorted modules and of the node at the dependency-list path; the
  empty text where it appends nothing.
\<close>

definition requirements_text :: "string \<Rightarrow> string list \<Rightarrow> node option \<Rightarrow> string" where
  "requirements_text repo_root missing req =
     (if missing = [] then []
      else case req of
        None \<Rightarrow> make_new_file_diff (Some (req_path repo_root)) ''requirements.txt'' missing
      | Some Dir \<Rightarrow> []
      | Some (File c) \<Rightarrow>
          let old = splitlines (universal_newlines c);
              added = filter (\<lambda>m. m \<notin> set (map strip old)) missing
          in if added = [] then []
             else make_update_file_diff (req_path repo_root) ''requirements.txt'' old (old @ added))"

text \<open>What it appends for the advisory file, and the notice.\<close>

definition system_deps_text :: "string \<Rightarrow> string list \<Rightarrow> string" where
  "system_deps_text repo_root hdrs =
     (if hdrs = [] then []
      else make_new_file_diff (Some (path_join repo_root ''.fixbot_system_deps.txt''))
             ''.fixbot_system_deps.txt'' (system_deps_lines hdrs))"

definition notice_text :: string where
  "notice_text = make_new_file_diff None ''.fixbot_notice.txt'' notice_lines"

text \<open>
  The whole text of the output file after the heuristic path, as a function of the
  log text and of the node at the dependency-list path.
\<close>

definition patch_text :: "string \<Rightarrow> string \<Rightarrow> node option \<Rightarrow> string" where
  "patch_text repo_root logs req =
     (let r = requirements_text repo_root (missing_list logs) req;
          h = system_deps_text repo_root (missing_headers logs)
      in if r = [] \<and> h = [] then notice_text else r @ h)"

subsection \<open>Diff fragments as lists of lines\<close>


text \<open>
  The lines that a diff fragment adds: the lines after the two lines that name the
  files which start with a plus sign, without that sign.
\<close>

definition added_lines :: "string list \<Rightarrow> string list" where
  "added_lines ls = map tl (filter (\<lambda>l. take 1 l = ''+'') (drop 2 ls))"


definition is_update_fragment :: "string \<Rightarrow> string list \<Rightarrow> bool" where
  "is_update_fragment rel ls =
     (case ls of
        a # b # c # body \<Rightarrow>
          a = ''--- a/'' @ rel \<and> b = ''+++ b/'' @ rel
          \<and> take 4 c = ''@@ -'' \<and> drop (length c - 3) c = '' @@''
          \<and> list_all (\<lambda>l. take 1 l = '' '' \<or> take 1 l = ''+'') body
      | _ \<Rightarrow> False)"


text \<open>A string that is one line of a text file: it holds no line feed.\<close>

definition single_line :: "string \<Rightarrow> bool" where
  "single_line l \<longleftrightarrow> LF \<notin> set l"


text \<open>The text of a file made of fragments.\<close>

definition fragments_text :: "string list list \<Rightarrow> string" where
  "fragments_text frags = concat (map (\<lambda>ls. join_nl ls @ [LF]) frags)"

subsection \<open>Example inputs\<close>

text \<open>Logs.\<close>

definition module_example_log :: string where
  "module_example_log =
     ''ModuleNotFoundError: No module named '' @ [quote] @ ''foo'' @ [quote, LF]
     @ ''ImportError: No module named BAR'' @ [LF]"

definition header_example_log :: string where
  "header_example_log =
     ''fatal error: a/b.h: No such file or directory'' @ [LF]
     @ ''fatal error: a/b.h: No such file or directory'' @ [LF]
     @ ''fatal error: c.h: No such file or directory'' @ [LF]"

definition dotted_example_log :: string where
  "dotted_example_log = ''ModuleNotFoundError: No module named '' @ [quote] @ ''pkg.sub'' @ [quote]"

text \<open>
  The environment without variables, the file system without files, an environment
  with two variables, and networks that answer every request alike.
\<close>

definition no_env :: "string \<Rightarrow> string option" where
  "no_env = Map.empty"

text \<open>
  The file system with given nodes in which every path names itself and no access is
  refused, and the one in which a leading \<^verbatim>\<open>./\<close> does not count.
\<close>

definition spelled :: "(string \<Rightarrow> node option) \<Rightarrow> fsys" where
  "spelled m = \<lparr>nodes = m, canon = (\<lambda>p. p), refuses = (\<lambda>a q. None)\<rparr>"

definition undotted :: "string \<Rightarrow> string" where
  "undotted p = (if take 2 p = ''./'' then drop 2 p else p)"

definition relative :: "(string \<Rightarrow> node option) \<Rightarrow> fsys" where
  "relative m = \<lparr>nodes = m, canon = undotted, refuses = (\<lambda>a q. None)\<rparr>"

definition no_files :: fsys where
  "no_files = spelled Map.empty"

definition example_env :: "string \<Rightarrow> string option" where
  "example_env = [''GH_TOKEN'' \<mapsto> [], ''GITHUB_TOKEN'' \<mapsto> ''t0k'']"

definition not_found :: network where
  "not_found req = Inr \<lparr>status_code = 404, resp_text = ''Not Found'', resp_json = None\<rparr>"

definition no_content :: network where
  "no_content req = Inr \<lparr>status_code = 204, resp_text = [], resp_json = None\<rparr>"

definition ok_html :: network where
  "ok_html req = Inr \<lparr>status_code = 200, resp_text = ''<html></html>'', resp_json = None\<rparr>"

definition created_body :: string where
  "created_body =
     ''{'' @ [CHR 0x22] @ ''html_url'' @ [CHR 0x22] @ '': '' @ [CHR 0x22]
     @ ''https://example.org/c/1'' @ [CHR 0x22] @ ''}''"

definition created :: network where
  "created req =
     Inr \<lparr>status_code = 201, resp_text = created_body,
          resp_json = Some (JObj [(''html_url'', JStr ''https://example.org/c/1'')])\<rparr>"

text \<open>Example file systems, and the patches expected from them.\<close>

definition example_requirements :: fsys where
  "example_requirements = spelled [''./requirements.txt'' \<mapsto> File ''foo'']"

definition example_update_diff :: string where
  "example_update_diff =
     ''--- a/requirements.txt'' @ [LF] @ ''+++ b/requirements.txt'' @ [LF]
     @ ''@@ -1 +1,2 @@'' @ [LF] @ '' foo'' @ [LF] @ ''+bar'' @ [LF]"



definition quiet_fs :: fsys where
  "quiet_fs = spelled [''ci.log'' \<mapsto> File ''all tests passed'']"



definition alias_fs :: fsys where
  "alias_fs = relative [''ci.log'' \<mapsto> File module_example_log]"

definition example_new_diff :: string where
  "example_new_diff =
     ''--- /dev/null'' @ [LF] @ ''+++ b/requirements.txt'' @ [LF]
     @ ''@@ -0,0 +1,2 @@'' @ [LF] @ ''+bar'' @ [LF] @ ''+foo'' @ [LF]"

definition example_notice :: string where
  "example_notice =
     ''--- /dev/null'' @ [LF] @ ''+++ b/.fixbot_notice.txt'' @ [LF]
     @ ''@@ -0,0 +1,2 @@'' @ [LF] @ ''+FixBot could not identify an automatic fix.'' @ [LF]
     @ ''+See .fixbot_logs.txt for details.'' @ [LF]"

text \<open>A provider that answers both requests of the fetcher with status 200.\<close>

definition dq :: "string \<Rightarrow> string" where
  "dq s = CHR 0x22 # s @ [CHR 0x22]"

definition run_body :: json where
  "run_body = JObj [(''id'', JInt 42), (''status'', JStr ''completed'')]"

definition jobs_body :: json where
  "jobs_body = JObj [(''jobs'', JArr [JObj [(''id'', JInt 7), (''name'', JStr ''build'')]])]"

definition provider :: network where
  "provider req =
     (if req_url req = jobs_url ''o/r'' ''42''
      then Inr \<lparr>status_code = 200,
                resp_text = ''{'' @ dq ''jobs'' @ '': [{'' @ dq ''id'' @ '': 7, '' @ dq ''name''
                            @ '': '' @ dq ''build'' @ ''}]}'',
                resp_json = Some jobs_body\<rparr>
      else Inr \<lparr>status_code = 200,
                resp_text = ''{'' @ dq ''id'' @ '': 42, '' @ dq ''status'' @ '': ''
                            @ dq ''completed'' @ ''}'',
                resp_json = Some run_body\<rparr>)"

text \<open>
  The summaries that the fetcher builds for the two example networks, the texts that
  \<^verbatim>\<open>json.dump\<close> writes for them, a dumper that knows these two values, and one that
  fails after an opening brace.
\<close>

definition not_found_summary :: json where
  "not_found_summary =
     JObj [(''run'', JObj [(''id'', JNull), (''head_sha'', JNull), (''status'', JNull),
                          (''conclusion'', JNull), (''event'', JNull)]),
           (''jobs_summary'', JArr []),
           (''raw_run'', JObj [(''error'', JStr ''Not Found'')]),
           (''raw_jobs'', JObj [(''error'', JStr ''Not Found'')])]"

definition provider_summary :: json where
  "provider_summary =
     JObj [(''run'', JObj [(''id'', JInt 42), (''head_sha'', JNull),
                          (''status'', JStr ''completed''), (''conclusion'', JNull),
                          (''event'', JNull)]),
           (''jobs_summary'',
              JArr [JObj [(''id'', JInt 7), (''name'', JStr ''build''), (''status'', JNull),
                          (''conclusion'', JNull), (''html_url'', JNull)]]),
           (''raw_run'', run_body),
           (''raw_jobs'', jobs_body)]"

definition not_found_text :: string where
  "not_found_text =
     join_nl
     [''{'',
      ''  '' @ dq ''run'' @ '': {'',
      ''    '' @ dq ''id'' @ '': null,'',
      ''    '' @ dq ''head_sha'' @ '': null,'',
      ''    '' @ dq ''status'' @ '': null,'',
      ''    '' @ dq ''conclusion'' @ '': null,'',
      ''    '' @ dq ''event'' @ '': null'',
      ''  },'',
      ''  '' @ dq ''jobs_summary'' @ '': [],'',
      ''  '' @ dq ''raw_run'' @ '': {'',
      ''    '' @ dq ''error'' @ '': '' @ dq ''Not Found'',
      ''  },'',
      ''  '' @ dq ''raw_jobs'' @ '': {'',
      ''    '' @ dq ''error'' @ '': '' @ dq ''Not Found'',
      ''  }'',
      ''}'']"

definition provider_text :: string where
  "provider_text =
     join_nl
     [''{'',
      ''  '' @ dq ''run'' @ '': {'',
      ''    '' @ dq ''id'' @ '': 42,'',
      ''    '' @ dq ''head_sha'' @ '': null,'',
      ''    '' @ dq ''status'' @ '': '' @ dq ''completed'' @ '','',
      ''    '' @ dq ''conclusion'' @ '': null,'',
      ''    '' @ dq ''event'' @ '': null'',
      ''  },'',
      ''  '' @ dq ''jobs_summary'' @ '': ['',
      ''    {'',
      ''      '' @ dq ''id'' @ '': 7,'',
      ''      '' @ dq ''name'' @ '': '' @ dq ''build'' @ '','',
      ''      '' @ dq ''status'' @ '': null,'',
      ''      '' @ dq ''conclusion'' @ '': null,'',
      ''      '' @ dq ''html_url'' @ '': null'',
      ''    }'',
      ''  ],'',
      ''  '' @ dq ''raw_run'' @ '': {'',
      ''    '' @ dq ''id'' @ '': 42,'',
      ''    '' @ dq ''status'' @ '': '' @ dq ''completed'',
      ''  },'',
      ''  '' @ dq ''raw_jobs'' @ '': {'',
      ''    '' @ dq ''jobs'' @ '': ['',
      ''      {'',
      ''        '' @ dq ''id'' @ '': 7,'',
      ''        '' @ dq ''name'' @ '': '' @ dq ''build'',
      ''      }'',
      ''    ]'',
      ''  }'',
      ''}'']"

definition example_dump :: dumper where
  "example_dump v =
     (if v = not_found_summary then Inr not_found_text
      else if v = provider_summary then Inr provider_text
      else Inl (UnicodeEncodeError, []))"

definition failing_dump :: dumper where
  "failing_dump v = Inl (UnicodeEncodeError, ''{'')"

section \<open>Properties\<close>

subsection \<open>Detection\<close>

lemma add_lowered_eq: "add_lowered ms A = A \<union> lower ` set ms"
  unfolding add_lowered_def by (induction ms arbitrary: A) auto

lemma missing_modules_eq:
  "missing_modules logs =
     lower ` set (findall module_not_found_re logs)
     \<union> lower ` set (findall import_error_re logs)
     \<union> lower ` set (findall no_distribution_re logs)"
  unfolding missing_modules_def by (simp add: add_lowered_eq)

lemma finite_missing_modules: "finite (missing_modules logs)"
  by (simp add: missing_modules_eq)

lemma set_missing_list: "set (missing_list logs) = missing_modules logs"
  unfolding missing_list_def by (simp add: finite_missing_modules)

lemma distinct_missing_list: "distinct (missing_list logs)"
  unfolding missing_list_def by simp

lemma sorted_missing_list: "sorted (missing_list logs)"
  unfolding missing_list_def by simp

lemma module_example_list: "missing_list module_example_log = [''bar'', ''foo'']"
  by code_simp

text \<open>
  Claim C5. The set of missing modules is the union of the lowered capture groups of the
  three module patterns; the sorted list holds each of its elements once. On the log
  with one quoted \<^verbatim>\<open>ModuleNotFoundError\<close> line for \<^verbatim>\<open>foo\<close> and one \<^verbatim>\<open>ImportError\<close>
  line for \<^verbatim>\<open>BAR\<close> the set is \<^verbatim>\<open>{"foo", "bar"}\<close>.
\<close>

theorem missing_modules_union: "missing_modules logs =
     lower ` set (findall module_not_found_re logs)
     \<union> lower ` set (findall import_error_re logs)
     \<union> lower ` set (findall no_distribution_re logs)
   \<and> set (missing_list logs) = missing_modules logs
   \<and> distinct (missing_list logs)
   \<and> missing_modules module_example_log = {''foo'', ''bar''}"
proof -
  have "missing_modules module_example_log = set (missing_list module_example_log)"
    by (simp only: set_missing_list)
  also have "\<dots> = {''foo'', ''bar''}"
    by (simp only: module_example_list) auto
  finally show ?thesis
    using missing_modules_eq [of logs] set_missing_list [of logs] distinct_missing_list [of logs]
    by blast
qed

theorem missing_modules_union_witness:
  "set (missing_list module_example_log) = {''foo'', ''bar''}
   \<and> distinct (missing_list module_example_log)"
proof -
  note u = missing_modules_union [of module_example_log]
  from u have "set (missing_list module_example_log) = missing_modules module_example_log"
    by (rule conjunct2 [THEN conjunct1])
  moreover from u have "missing_modules module_example_log = {''foo'', ''bar''}"
    by (rule conjunct2 [THEN conjunct2, THEN conjunct2])
  moreover from u have "distinct (missing_list module_example_log)"
    by (rule conjunct2 [THEN conjunct2, THEN conjunct1])
  ultimately show ?thesis by simp
qed

lemma add_new_eq:
  "add_new hdrs acc = acc @ first_appearances (filter (\<lambda>h. h \<notin> set acc) hdrs)"
  unfolding add_new_def
proof (induction hdrs arbitrary: acc)
  case Nil
  show ?case by simp
next
  case (Cons h hs)
  have "filter (\<lambda>x. x \<noteq> h \<and> x \<notin> set acc) hs = filter (\<lambda>x. x \<notin> set acc \<and> x \<noteq> h) hs"
    by (rule filter_cong) auto
  with Cons show ?case by (simp add: conj_commute)
qed

lemma set_first_appearances: "set (first_appearances xs) = set xs"
  by (induction xs rule: first_appearances.induct) auto

lemma distinct_first_appearances: "distinct (first_appearances xs)"
  by (induction xs rule: first_appearances.induct) (auto simp: set_first_appearances)

lemma missing_headers_eq: "missing_headers logs = first_appearances (findall fatal_header_re logs)"
  unfolding missing_headers_def by (simp add: add_new_eq)

text \<open>
  Claim C8. The list of missing headers holds each matched header path once, in the
  order of first appearance. Two lines for \<^verbatim>\<open>a/b.h\<close> followed by one for \<^verbatim>\<open>c.h\<close>
  give \<^verbatim>\<open>["a/b.h", "c.h"]\<close>.
\<close>

theorem missing_headers_first_appearance: "missing_headers logs = first_appearances (findall fatal_header_re logs)
  \<and> distinct (missing_headers logs)
  \<and> set (missing_headers logs) = set (findall fatal_header_re logs)
  \<and> missing_headers header_example_log = [''a/b.h'', ''c.h'']"
proof -
  have "missing_headers header_example_log = [''a/b.h'', ''c.h'']"
    by code_simp
  then show ?thesis
    by (simp add: missing_headers_eq distinct_first_appearances set_first_appearances)
qed

theorem missing_headers_first_appearance_witness:
  "findall fatal_header_re header_example_log = [''a/b.h'', ''a/b.h'', ''c.h'']
   \<and> missing_headers header_example_log = [''a/b.h'', ''c.h'']
   \<and> distinct (missing_headers header_example_log)"
proof -
  have f: "findall fatal_header_re header_example_log = [''a/b.h'', ''a/b.h'', ''c.h'']"
    by code_simp
  note u = missing_headers_first_appearance [of header_example_log]
  from u have "missing_headers header_example_log = [''a/b.h'', ''c.h'']"
    by (rule conjunct2 [THEN conjunct2, THEN conjunct2])
  moreover from u have "distinct (missing_headers header_example_log)"
    by (rule conjunct2 [THEN conjunct1])
  ultimately show ?thesis using f by simp
qed

lemma backtrack_group:
  "backtrack k inn suf s = Some (g, r) \<Longrightarrow> \<exists>j. 0 < j \<and> j \<le> k \<and> g = take j s @ inn"
proof (induction k)
  case 0
  then show ?case by simp
next
  case (Suc k)
  show ?case
  proof (cases "match_lit (inn @ suf) (drop (Suc k) s)")
    case None
    with Suc.prems have "backtrack k inn suf s = Some (g, r)" by simp
    then obtain j where "0 < j" "j \<le> k" "g = take j s @ inn"
      using Suc.IH by blast
    then show ?thesis by (intro exI [of _ j]) simp
  next
    case (Some r')
    with Suc.prems have "g = take (Suc k) s @ inn" by simp
    then show ?thesis by (intro exI [of _ "Suc k"]) simp
  qed
qed

lemma match_at_group:
  assumes "match_at p s = Some (g, r)"
  shows "\<exists>run. run \<noteq> [] \<and> list_all (cls p) run \<and> g = run @ inner p"
proof -
  from assms obtain s1 where
    b: "backtrack (length (takeWhile (cls p) s1)) (inner p) (suffix p) s1 = Some (g, r)"
    by (auto simp: match_at_def split: option.splits)
  then obtain j where j: "0 < j" "j \<le> length (takeWhile (cls p) s1)" "g = take j s1 @ inner p"
    using backtrack_group by blast
  have "take j (xs @ ys) = take j xs" if "j \<le> length xs" for xs ys :: string
    using that by simp
  from this [OF j(2), of "dropWhile (cls p) s1"]
  have t: "take j s1 = take j (takeWhile (cls p) s1)" by simp
  have "set (take j (takeWhile (cls p) s1)) \<subseteq> set (takeWhile (cls p) s1)"
    by (rule set_take_subset)
  then have "list_all (cls p) (take j s1)"
    unfolding t list_all_iff by (auto dest: set_takeWhileD)
  moreover have "take j s1 \<noteq> []" using j(1,2) unfolding t by auto
  ultimately show ?thesis using j(3) by blast
qed

lemma findall_groups:
  "g \<in> set (findall p s) \<Longrightarrow> \<exists>run. run \<noteq> [] \<and> list_all (cls p) run \<and> g = run @ inner p"
proof (induction p s rule: findall.induct)
  case (1 p)
  then show ?case by simp
next
  case (2 p c cs)
  show ?case
  proof (cases "match_at p (c # cs)")
    case None
    with 2 show ?thesis by simp
  next
    case (Some a)
    obtain g' rest where a: "a = (g', rest)" by (cases a)
    from 2 Some a show ?thesis
      by (auto dest: match_at_group)
  qed
qed

lemma lower_word_char: "word_char c \<Longrightarrow> lower_word_char (lower_char c)"
  by (auto simp: word_char_def lower_word_char_def lower_char_def code_def Let_def)

lemma match_lit_append: "match_lit l (l @ s) = Some s"
  by (induction l) auto

lemma backtrack_none:
  "(\<And>j. 0 < j \<Longrightarrow> j \<le> k \<Longrightarrow> match_lit (inn @ suf) (drop j s) = None)
     \<Longrightarrow> backtrack k inn suf s = None"
  by (induction k) auto

lemma takeWhile_run:
  "list_all P run \<Longrightarrow> \<not> P c \<Longrightarrow> takeWhile P (run @ c # rest) = run"
  by (simp add: takeWhile_append2 list_all_iff)

lemma quote_not_word: "\<not> word_char quote"
  by (simp add: word_char_def quote_def code_def)

lemma quoted_no_match:
  assumes run: "list_all word_char run" and c: "\<not> word_char c" "c \<noteq> quote"
  shows "match_at module_not_found_re (prefix module_not_found_re @ run @ c # rest) = None"
proof -
  have "match_lit [quote] (drop j (run @ c # rest)) = None" if "0 < j" "j \<le> length run" for j
  proof (cases "j = length run")
    case True
    then show ?thesis using c(2) by simp
  next
    case False
    with that have lt: "j < length run" by simp
    then have d: "drop j run = run ! j # drop (Suc j) run"
      by (simp add: Cons_nth_drop_Suc)
    from lt run have "word_char (run ! j)" by (simp add: list_all_length)
    with quote_not_word have "run ! j \<noteq> quote" by auto
    with lt d show ?thesis by simp
  qed
  then have "backtrack (length run) [] [quote] (run @ c # rest) = None"
    by (intro backtrack_none) simp
  then show ?thesis
    using takeWhile_run [OF run c(1), of rest]
    by (simp add: match_at_def match_lit_append module_not_found_re_def quote_def)
qed

lemma import_prefix_match:
  assumes run: "run \<noteq> []" "list_all word_char run" and c: "\<not> word_char c"
  shows "match_at import_error_re (prefix import_error_re @ run @ c # rest) = Some (run, c # rest)"
proof -
  from run(1) obtain k where k: "length run = Suc k" by (cases run) auto
  have "backtrack (Suc k) [] [] (run @ c # rest) = Some (run, c # rest)"
    using k by simp
  then show ?thesis
    using takeWhile_run [OF run(2) c, of rest] k
    by (simp add: match_at_def match_lit_append import_error_re_def)
qed

text \<open>
  Claim C10, as stated, fails: an \<^verbatim>\<open>ImportError\<close> line for the dotted name \<^verbatim>\<open>pkg.sub\<close>
  does contribute an entry, the part of the name before the dot.
\<close>

theorem import_error_dotted_name_counterexample:
  "missing_modules ''ImportError: No module named pkg.sub'' = {''pkg''}"
proof -
  have "missing_list ''ImportError: No module named pkg.sub'' = [''pkg'']"
    by code_simp
  then have "set (missing_list ''ImportError: No module named pkg.sub'') = {''pkg''}"
    by simp
  then show ?thesis by (simp only: set_missing_list)
qed

text \<open>
  Claim C10, amended. Every entry that the \<^verbatim>\<open>ModuleNotFoundError\<close> and \<^verbatim>\<open>ImportError\<close>
  patterns contribute is non-empty and consists of characters in \<^verbatim>\<open>[a-z0-9_]\<close>. A quoted
  \<^verbatim>\<open>ModuleNotFoundError\<close> name in which a run of word characters is followed by a
  character that is neither a word character nor the quote gives no match there, so
  the dotted example contributes nothing. An \<^verbatim>\<open>ImportError\<close> name contributes its
  longest leading run of word characters.
\<close>

theorem module_names_lower_word:
  "(\<forall>m \<in> lower ` set (findall module_not_found_re logs)
          \<union> lower ` set (findall import_error_re logs).
      m \<noteq> [] \<and> list_all lower_word_char m)
   \<and> (list_all word_char run \<and> \<not> word_char c \<and> c \<noteq> quote \<longrightarrow>
        match_at module_not_found_re (prefix module_not_found_re @ run @ c # rest) = None)
   \<and> (run \<noteq> [] \<and> list_all word_char run \<and> \<not> word_char c \<longrightarrow>
        match_at import_error_re (prefix import_error_re @ run @ c # rest) = Some (run, c # rest))
   \<and> missing_modules dotted_example_log = {}"
proof -
  have a: "m \<noteq> [] \<and> list_all lower_word_char m"
    if "m \<in> lower ` set (findall p logs)" and "cls p = word_char" and "inner p = []" for m p
  proof -
    from that(1) obtain g where g: "g \<in> set (findall p logs)" and m: "m = lower g" by auto
    from findall_groups [OF g] that(2,3) have "g \<noteq> []" and "list_all word_char g" by auto
    then show ?thesis
      unfolding m lower_def by (auto simp: list_all_iff lower_word_char)
  qed
  have 1: "\<forall>m \<in> lower ` set (findall module_not_found_re logs)
          \<union> lower ` set (findall import_error_re logs).
      m \<noteq> [] \<and> list_all lower_word_char m"
  proof
    fix m
    assume "m \<in> lower ` set (findall module_not_found_re logs)
                \<union> lower ` set (findall import_error_re logs)"
    then consider "m \<in> lower ` set (findall module_not_found_re logs)"
      | "m \<in> lower ` set (findall import_error_re logs)" by blast
    then show "m \<noteq> [] \<and> list_all lower_word_char m"
    proof cases
      case 1
      then show ?thesis by (rule a) (simp_all add: module_not_found_re_def)
    next
      case 2
      then show ?thesis by (rule a) (simp_all add: import_error_re_def)
    qed
  qed
  have "missing_list dotted_example_log = []" by code_simp
  then have "set (missing_list dotted_example_log) = {}" by simp
  then have 4: "missing_modules dotted_example_log = {}" by (simp only: set_missing_list)
  have 2: "list_all word_char run \<and> \<not> word_char c \<and> c \<noteq> quote \<longrightarrow>
        match_at module_not_found_re (prefix module_not_found_re @ run @ c # rest) = None"
    by (intro impI quoted_no_match) simp_all
  have 3: "run \<noteq> [] \<and> list_all word_char run \<and> \<not> word_char c \<longrightarrow>
        match_at import_error_re (prefix import_error_re @ run @ c # rest) = Some (run, c # rest)"
    by (intro impI import_prefix_match) simp_all
  from 1 2 3 4 show ?thesis by (intro conjI)
qed

theorem module_names_lower_word_witness:
  "list_all lower_word_char ''foo'' \<and> list_all lower_word_char ''bar''
   \<and> lower ` set (findall module_not_found_re module_example_log)
        \<union> lower ` set (findall import_error_re module_example_log) = {''foo'', ''bar''}
   \<and> list_all word_char ''pkg'' \<and> \<not> word_char CHR ''.'' \<and> CHR ''.'' \<noteq> quote \<and> ''pkg'' \<noteq> []
   \<and> match_at module_not_found_re (prefix module_not_found_re @ ''pkg'' @ CHR ''.'' # ''sub'' @ [quote]) = None
   \<and> match_at import_error_re (prefix import_error_re @ ''pkg'' @ CHR ''.'' # ''sub'')
        = Some (''pkg'', ''.sub'')"
proof -
  have h1: "list_all word_char ''pkg''" and h2: "\<not> word_char CHR ''.''"
    and h3: "CHR ''.'' \<noteq> quote" and h4: "''pkg'' \<noteq> []"
    by (simp_all add: word_char_def code_def quote_def)
  have p2: "list_all word_char ''pkg'' \<and> \<not> word_char CHR ''.'' \<and> CHR ''.'' \<noteq> quote"
    by (simp add: word_char_def code_def quote_def)
  have p3: "''pkg'' \<noteq> [] \<and> list_all word_char ''pkg'' \<and> \<not> word_char CHR ''.''"
    by (simp add: word_char_def code_def quote_def)
  have s: "findall module_not_found_re module_example_log = [''foo'']"
    "findall import_error_re module_example_log = [''BAR'']"
    by code_simp+
  have l: "lower ''foo'' = ''foo''" "lower ''BAR'' = ''bar''"
    by code_simp+
  have e: "lower ` set (findall module_not_found_re module_example_log)
        \<union> lower ` set (findall import_error_re module_example_log) = {''foo'', ''bar''}"
    unfolding s by (auto simp: l)
  have a: "\<forall>m \<in> lower ` set (findall module_not_found_re module_example_log)
          \<union> lower ` set (findall import_error_re module_example_log).
      m \<noteq> [] \<and> list_all lower_word_char m"
    by (rule module_names_lower_word [of module_example_log, THEN conjunct1])
  have n: "match_at module_not_found_re
      (prefix module_not_found_re @ ''pkg'' @ CHR ''.'' # ''sub'' @ [quote]) = None"
    by (rule module_names_lower_word [of module_example_log "''pkg''" "CHR ''.''" "''sub'' @ [quote]",
          THEN conjunct2, THEN conjunct1, THEN mp]) (rule p2)
  have i: "match_at import_error_re (prefix import_error_re @ ''pkg'' @ CHR ''.'' # ''sub'')
        = Some (''pkg'', ''.sub'')"
    by (rule module_names_lower_word [of module_example_log "''pkg''" "CHR ''.''" "''sub''",
          THEN conjunct2, THEN conjunct2, THEN conjunct1, THEN mp]) (rule p3)
  have "''foo'' \<in> {''foo'', ''bar''}" and "''bar'' \<in> {''foo'', ''bar''}"
    by simp_all
  then have mf: "''foo'' \<in> lower ` set (findall module_not_found_re module_example_log)
        \<union> lower ` set (findall import_error_re module_example_log)"
    and mb: "''bar'' \<in> lower ` set (findall module_not_found_re module_example_log)
        \<union> lower ` set (findall import_error_re module_example_log)"
    by (simp_all only: e)
  have f: "list_all lower_word_char ''foo''"
    by (rule bspec [OF a mf, THEN conjunct2])
  have b: "list_all lower_word_char ''bar''"
    by (rule bspec [OF a mb, THEN conjunct2])
  from f b e h1 h2 h3 h4 n i show ?thesis by (intro conjI)
qed

subsection \<open>Credentials, the comment poster and the log fetcher\<close>

lemma resolve_token_eq:
  "resolve_token a env =
     (if truthy a then a else if truthy (env ''GH_TOKEN'') then env ''GH_TOKEN''
      else env ''GITHUB_TOKEN'')"
  by (simp add: resolve_token_def py_or_def)

lemma truthy_Some: "truthy v \<longleftrightarrow> (\<exists>t. v = Some t \<and> t \<noteq> [])"
  by (cases v) (simp_all add: truthy_def)

lemma comment_main_no_token:
  "\<not> truthy (resolve_token a env) \<Longrightarrow>
     comment_main repo pr msg a env http
       = finished 2 [] [''Error: GH_TOKEN or --token required''] []"
  by (auto simp: comment_main_def truthy_def split: option.splits)

lemma fetch_main_no_token:
  "\<not> truthy (resolve_token a env) \<Longrightarrow>
     fetch_main repo run_id out_path a env http dump fs
       = (finished 2 [] [''Error: no GitHub token provided (GH_TOKEN or --token)''] [], fs)"
  by (auto simp: fetch_main_def truthy_def split: option.splits)

lemma comment_main_sent:
  "resolve_token a env = Some t \<Longrightarrow> t \<noteq> [] \<Longrightarrow>
     sent (comment_main repo pr msg a env http) = [comment_request repo pr msg t]"
  by (auto simp: comment_main_def Let_def finished_def crashed_def
      split: sum.splits option.splits json.splits)

lemma fetch_main_sent:
  "resolve_token a env = Some t \<Longrightarrow> t \<noteq> [] \<Longrightarrow>
     take 1 (sent (fst (fetch_main repo run_id out_path a env http dump fs)))
       = [get_request (run_url repo run_id) t]"
  by (auto simp: fetch_main_def Let_def finished_def crashed_def
      split: sum.splits option.splits prod.splits)

text \<open>
  Claim C9. In both scripts the credential is the first non-empty value among the
  \<^verbatim>\<open>--token\<close> argument, \<^verbatim>\<open>GH_TOKEN\<close> and \<^verbatim>\<open>GITHUB_TOKEN\<close>, and the first request
  carries it; when none of the three is non-empty, both exit with status 2 and issue no
  request.
\<close>

theorem token_resolution:
  "resolve_token a env =
     (if truthy a then a else if truthy (env ''GH_TOKEN'') then env ''GH_TOKEN''
      else env ''GITHUB_TOKEN'')
   \<and> (if truthy (resolve_token a env)
       then sent (comment_main repo pr msg a env http)
              = [comment_request repo pr msg (the (resolve_token a env))]
          \<and> take 1 (sent (fst (fetch_main repo run_id out_path a env http dump fs)))
              = [get_request (run_url repo run_id) (the (resolve_token a env))]
       else exit_status (comment_main repo pr msg a env http) = 2
          \<and> sent (comment_main repo pr msg a env http) = []
          \<and> exit_status (fst (fetch_main repo run_id out_path a env http dump fs)) = 2
          \<and> sent (fst (fetch_main repo run_id out_path a env http dump fs)) = []
          \<and> snd (fetch_main repo run_id out_path a env http dump fs) = fs)"
proof (intro conjI)
  show "resolve_token a env =
     (if truthy a then a else if truthy (env ''GH_TOKEN'') then env ''GH_TOKEN''
      else env ''GITHUB_TOKEN'')"
    by (rule resolve_token_eq)
next
  show "if truthy (resolve_token a env)
       then sent (comment_main repo pr msg a env http)
              = [comment_request repo pr msg (the (resolve_token a env))]
          \<and> take 1 (sent (fst (fetch_main repo run_id out_path a env http dump fs)))
              = [get_request (run_url repo run_id) (the (resolve_token a env))]
       else exit_status (comment_main repo pr msg a env http) = 2
          \<and> sent (comment_main repo pr msg a env http) = []
          \<and> exit_status (fst (fetch_main repo run_id out_path a env http dump fs)) = 2
          \<and> sent (fst (fetch_main repo run_id out_path a env http dump fs)) = []
          \<and> snd (fetch_main repo run_id out_path a env http dump fs) = fs"
  proof (cases "truthy (resolve_token a env)")
    case True
    then obtain t where t: "resolve_token a env = Some t" "t \<noteq> []"
      unfolding truthy_Some by blast
    from comment_main_sent [OF t] fetch_main_sent [OF t] True
    show ?thesis by (simp only: t if_True option.sel simp_thms)
  next
    case False
    show ?thesis
      by (simp only: False if_False comment_main_no_token [OF False]
          fetch_main_no_token [OF False]) (simp add: finished_def)
  qed
qed

theorem token_resolution_witness:
  "resolve_token None example_env = Some ''t0k''
   \<and> sent (comment_main ''o/r'' ''7'' ''hi'' None example_env not_found)
       = [comment_request ''o/r'' ''7'' ''hi'' ''t0k'']
   \<and> exit_status (comment_main ''o/r'' ''7'' ''hi'' (Some []) no_env not_found) = 2
   \<and> sent (comment_main ''o/r'' ''7'' ''hi'' (Some []) no_env not_found) = []
   \<and> exit_status (fst (fetch_main ''o/r'' ''42'' ''out.json'' (Some []) no_env not_found example_dump no_files)) = 2
   \<and> sent (fst (fetch_main ''o/r'' ''42'' ''out.json'' (Some []) no_env not_found example_dump no_files)) = []"
proof -
  have g: "\<not> truthy None" "\<not> truthy (example_env ''GH_TOKEN'')"
    "example_env ''GITHUB_TOKEN'' = Some ''t0k''" "truthy (Some ''t0k'')"
    by (simp_all add: truthy_def example_env_def)
  note a = token_resolution [where a = None and env = example_env and repo = "''o/r''"
      and pr = "''7''" and msg = "''hi''" and http = not_found and run_id = "''42''"
      and out_path = "''out.json''" and dump = example_dump and fs = no_files]
  from a have r: "resolve_token None example_env = Some ''t0k''"
    by (simp only: g if_False)
  from a have "sent (comment_main ''o/r'' ''7'' ''hi'' None example_env not_found)
       = [comment_request ''o/r'' ''7'' ''hi'' ''t0k'']"
    by (simp only: r g if_True option.sel)
  note b = token_resolution [where a = "Some []" and env = no_env and repo = "''o/r''"
      and pr = "''7''" and msg = "''hi''" and http = not_found and run_id = "''42''"
      and out_path = "''out.json''" and dump = example_dump and fs = no_files]
  have e: "\<not> truthy (Some [])" "\<not> truthy (no_env ''GH_TOKEN'')"
    "\<not> truthy (no_env ''GITHUB_TOKEN'')" "no_env ''GITHUB_TOKEN'' = None"
    by (simp_all add: truthy_def no_env_def)
  from b have n: "resolve_token (Some []) no_env = None"
    by (simp only: e if_False)
  from b have "exit_status (comment_main ''o/r'' ''7'' ''hi'' (Some []) no_env not_found) = 2
   \<and> sent (comment_main ''o/r'' ''7'' ''hi'' (Some []) no_env not_found) = []
   \<and> exit_status (fst (fetch_main ''o/r'' ''42'' ''out.json'' (Some []) no_env not_found example_dump no_files)) = 2
   \<and> sent (fst (fetch_main ''o/r'' ''42'' ''out.json'' (Some []) no_env not_found example_dump no_files)) = []"
    by (simp only: n g if_False)
  with r \<open>sent (comment_main ''o/r'' ''7'' ''hi'' None example_env not_found)
       = [comment_request ''o/r'' ''7'' ''hi'' ''t0k'']\<close>
  show ?thesis by (intro conjI) simp_all
qed

lemma resolve_arg: "t \<noteq> [] \<Longrightarrow> resolve_token (Some t) env = Some t"
  by (simp add: resolve_token_def py_or_def truthy_def)

text \<open>
  Claim C2, as stated, fails: a response with status 204, a 2xx code, makes the poster
  exit with status 1 and report nothing.
\<close>

theorem comment_no_content_counterexample:
  "exit_status (comment_main ''o/r'' ''7'' ''hi'' (Some ''t0k'') no_env no_content) = 1
   \<and> printed (comment_main ''o/r'' ''7'' ''hi'' (Some ''t0k'') no_env no_content) = []
   \<and> warned (comment_main ''o/r'' ''7'' ''hi'' (Some ''t0k'') no_env no_content)
       = [''Failed to post comment: 204 '']"
proof -
  have "str_int 204 = ''204''" by code_simp
  then show ?thesis
    by (simp add: comment_main_def resolve_arg no_content_def finished_def Let_def)
qed

lemma comment_main_response:
  assumes "resolve_token a env = Some t" "t \<noteq> []"
    and "http (comment_request repo pr msg t) = Inr r"
  shows "comment_main repo pr msg a env http =
     (if status_code r \<notin> {200, 201} then
        finished 1 []
          [''Failed to post comment: '' @ str_int (status_code r) @ '' '' @ resp_text r]
          [comment_request repo pr msg t]
      else (case resp_json r of
              None \<Rightarrow> crashed JSONDecodeError [] [] [comment_request repo pr msg t]
            | Some (JObj kvs) \<Rightarrow>
                finished 0 [[S ''Comment posted: '', J (obj_get kvs ''html_url'')]] []
                  [comment_request repo pr msg t]
            | Some _ \<Rightarrow> crashed AttributeError [] [] [comment_request repo pr msg t]))"
  using assms by (simp add: comment_main_def Let_def)

text \<open>
  Claim C2, amended. With a credential: a response with status 200 or 201 whose body is
  a JSON object makes the poster print the \<^verbatim>\<open>html_url\<close> field of the body and exit
  with status 0; a response with any other status makes it print the status and the
  body to the error stream and exit with status 1. Without a credential it exits with
  status 2 and issues no request.
\<close>

theorem comment_outcomes:
  assumes "resolve_token a env = Some t" "t \<noteq> []"
    and "http (comment_request repo pr msg t) = Inr r"
  shows "(status_code r \<in> {200, 201} \<and> resp_json r = Some (JObj kvs) \<longrightarrow>
            comment_main repo pr msg a env http =
              finished 0 [[S ''Comment posted: '', J (obj_get kvs ''html_url'')]] []
                [comment_request repo pr msg t])
       \<and> (status_code r \<notin> {200, 201} \<longrightarrow>
            comment_main repo pr msg a env http =
              finished 1 []
                [''Failed to post comment: '' @ str_int (status_code r) @ '' '' @ resp_text r]
                [comment_request repo pr msg t])
       \<and> (\<not> truthy (resolve_token a' env') \<longrightarrow>
            exit_status (comment_main repo pr msg a' env' http) = 2
            \<and> sent (comment_main repo pr msg a' env' http) = [])"
proof (intro conjI impI)
  note m = comment_main_response [where http = http, OF assms]
  assume "status_code r \<in> {200, 201} \<and> resp_json r = Some (JObj kvs)"
  then show "comment_main repo pr msg a env http =
      finished 0 [[S ''Comment posted: '', J (obj_get kvs ''html_url'')]] []
        [comment_request repo pr msg t]"
    by (simp add: m)
next
  note m = comment_main_response [where http = http, OF assms]
  assume "status_code r \<notin> {200, 201}"
  then show "comment_main repo pr msg a env http =
      finished 1 []
        [''Failed to post comment: '' @ str_int (status_code r) @ '' '' @ resp_text r]
        [comment_request repo pr msg t]"
    by (simp add: m)
next
  assume n: "\<not> truthy (resolve_token a' env')"
  show "exit_status (comment_main repo pr msg a' env' http) = 2"
    by (simp add: comment_main_no_token [OF n] finished_def)
next
  assume n: "\<not> truthy (resolve_token a' env')"
  show "sent (comment_main repo pr msg a' env' http) = []"
    by (simp add: comment_main_no_token [OF n] finished_def)
qed

theorem comment_outcomes_witness:
  "comment_main ''o/r'' ''7'' ''hi'' (Some ''t0k'') Map.empty created =
     finished 0 [[S ''Comment posted: '', J (JStr ''https://example.org/c/1'')]] []
       [comment_request ''o/r'' ''7'' ''hi'' ''t0k'']
   \<and> comment_main ''o/r'' ''7'' ''hi'' (Some ''t0k'') Map.empty not_found =
     finished 1 [] [''Failed to post comment: 404 Not Found'']
       [comment_request ''o/r'' ''7'' ''hi'' ''t0k'']
   \<and> exit_status (comment_main ''o/r'' ''7'' ''hi'' None Map.empty created) = 2
   \<and> sent (comment_main ''o/r'' ''7'' ''hi'' None Map.empty created) = []"
proof -
  have t: "resolve_token (Some ''t0k'') Map.empty = Some ''t0k''" "''t0k'' \<noteq> []"
    by (simp_all add: resolve_arg)
  have n: "\<not> truthy (resolve_token None Map.empty)"
    by (simp add: resolve_token_def py_or_def truthy_def)
  have c: "created (comment_request ''o/r'' ''7'' ''hi'' ''t0k'') =
      Inr \<lparr>status_code = 201, resp_text = created_body,
          resp_json = Some (JObj [(''html_url'', JStr ''https://example.org/c/1'')])\<rparr>"
    by (simp add: created_def)
  have f: "not_found (comment_request ''o/r'' ''7'' ''hi'' ''t0k'') =
      Inr \<lparr>status_code = 404, resp_text = ''Not Found'', resp_json = None\<rparr>"
    by (simp add: not_found_def)
  have s: "str_int 404 = ''404''" by code_simp
  have g: "obj_get [(''html_url'', JStr ''https://example.org/c/1'')] ''html_url''
      = JStr ''https://example.org/c/1''"
    by (simp add: obj_get_def)
  from comment_outcomes [where http = created, OF t c,
      of "[(''html_url'', JStr ''https://example.org/c/1'')]" None Map.empty]
  have 1: "comment_main ''o/r'' ''7'' ''hi'' (Some ''t0k'') Map.empty created =
     finished 0 [[S ''Comment posted: '', J (JStr ''https://example.org/c/1'')]] []
       [comment_request ''o/r'' ''7'' ''hi'' ''t0k'']"
    and 3: "exit_status (comment_main ''o/r'' ''7'' ''hi'' None Map.empty created) = 2"
    and 4: "sent (comment_main ''o/r'' ''7'' ''hi'' None Map.empty created) = []"
    using n by (simp_all add: g)
  from comment_outcomes [where http = not_found, OF t f, of "[]" None Map.empty]
  have 2: "comment_main ''o/r'' ''7'' ''hi'' (Some ''t0k'') Map.empty not_found =
     finished 1 [] [''Failed to post comment: 404 Not Found'']
       [comment_request ''o/r'' ''7'' ''hi'' ''t0k'']"
    by (simp add: s)
  from 1 2 3 4 show ?thesis by (intro conjI)
qed

lemma job_projections_ok: "list_all is_obj xs \<Longrightarrow> \<exists>js. job_projections xs = Inr js"
  by (induction xs) (auto simp: is_obj_def job_projection_def split: json.splits)

lemma jobs_summary_ok: "jobs_ok j \<Longrightarrow> \<exists>js. jobs_summary j = Inr js"
  by (auto simp: jobs_ok_def jobs_summary_def iterate_def job_projections_ok
      split: json.splits option.splits)

lemma jobs_summary_error: "jobs_summary (JObj [(''error'', v)]) = Inr []"
  by (simp add: jobs_summary_def)

text \<open>
  Claim C4, as stated, fails: when the run request is answered with status 200 and a
  body that is not JSON, the fetcher stops with an exception and writes nothing.
\<close>

theorem fetch_unparsed_body_counterexample:
  "fetch_main ''o/r'' ''42'' ''out.json'' (Some ''t0k'') no_env ok_html example_dump no_files =
     (crashed JSONDecodeError [] [] [get_request (run_url ''o/r'' ''42'') ''t0k''], no_files)
   \<and> exit_status (crashed JSONDecodeError [] [] [get_request (run_url ''o/r'' ''42'') ''t0k'']) = 1
   \<and> path_exists no_files ''out.json'' = False"
  by (simp add: fetch_main_def resolve_arg ok_html_def fetched_def Let_def crashed_def
      no_files_def spelled_def path_exists_def)

lemma fetched_other_status:
  "status_code r \<noteq> 200 \<Longrightarrow>
     fetched what r =
       Inr (JObj [(''error'', JStr (resp_text r))],
            [''Warning: failed to fetch '' @ what @ '': '' @ str_int (status_code r)])"
  by (simp add: fetched_def)

lemma fetched_ok:
  "status_code r = 200 \<Longrightarrow> resp_json r = Some v \<Longrightarrow> fetched what r = Inr (v, [])"
  by (simp add: fetched_def)

text \<open>
  Claim C4, amended. Let both requests be answered, let a run response with status 200
  carry a JSON object, let a jobs response with status 200 carry JSON in which the
  value under \<^verbatim>\<open>jobs\<close>, if there is one, is an array of objects, and let the output
  file open for writing. Then the value handed to \<^verbatim>\<open>json.dump\<close> is an object with
  exactly the keys \<^verbatim>\<open>run\<close>, \<^verbatim>\<open>jobs_summary\<close>, \<^verbatim>\<open>raw_run\<close>, \<^verbatim>\<open>raw_jobs\<close>, in which
  \<^verbatim>\<open>run\<close> holds the five fields of the raw run and \<^verbatim>\<open>jobs_summary\<close> the list that the loop
  builds from the raw jobs; when the jobs response has another status, that list is
  empty and \<^verbatim>\<open>raw_jobs\<close> is an object with the single key \<^verbatim>\<open>error\<close>. If
  \<^verbatim>\<open>json.dump\<close> can write the value, the output file holds its text and the exit status
  is 0; if it cannot, its exception escapes and the file holds what was written before.
\<close>

theorem fetch_summary:
  assumes tok: "resolve_token a env = Some t" "t \<noteq> []"
    and r1: "http (get_request (run_url repo run_id) t) = Inr r1"
    and r2: "http (get_request (jobs_url repo run_id) t) = Inr r2"
    and run_ok: "status_code r1 = 200 \<longrightarrow> (\<exists>kvs. resp_json r1 = Some (JObj kvs))"
    and jobs_ok: "status_code r2 = 200 \<longrightarrow> (\<exists>j. resp_json r2 = Some j \<and> jobs_ok j)"
    and out: "open_for_writing fs out_path = Inr q"
  shows "\<exists>kvs js w.
     (if status_code r1 \<noteq> 200 then JObj [(''error'', JStr (resp_text r1))]
      else the (resp_json r1)) = JObj kvs
     \<and> jobs_summary (if status_code r2 \<noteq> 200 then JObj [(''error'', JStr (resp_text r2))]
                      else the (resp_json r2)) = Inr js
     \<and> (status_code r2 \<noteq> 200 \<longrightarrow> js = [])
     \<and> fetch_main repo run_id out_path a env http dump fs =
         (case dump (JObj
            [(''run'', JObj (map (\<lambda>k. (k, obj_get kvs k)) run_fields)),
             (''jobs_summary'', JArr js),
             (''raw_run'', if status_code r1 \<noteq> 200 then JObj [(''error'', JStr (resp_text r1))]
                           else the (resp_json r1)),
             (''raw_jobs'', if status_code r2 \<noteq> 200 then JObj [(''error'', JStr (resp_text r2))]
                            else the (resp_json r2))]) of
            Inr text \<Rightarrow>
              (finished 0 [] w
                 [get_request (run_url repo run_id) t, get_request (jobs_url repo run_id) t],
               store fs q text)
          | Inl (e, partial) \<Rightarrow>
              (crashed e [] w
                 [get_request (run_url repo run_id) t, get_request (jobs_url repo run_id) t],
               store fs q partial))"
proof -
  define run_info where
    "run_info = (if status_code r1 \<noteq> 200 then JObj [(''error'', JStr (resp_text r1))]
                 else the (resp_json r1))"
  define jobs_info where
    "jobs_info = (if status_code r2 \<noteq> 200 then JObj [(''error'', JStr (resp_text r2))]
                  else the (resp_json r2))"
  have "\<exists>w1. fetched ''run info'' r1 = Inr (run_info, w1)"
    using run_ok unfolding run_info_def
    by (cases "status_code r1 = 200") (auto simp: fetched_other_status fetched_ok)
  then obtain w1 where f1: "fetched ''run info'' r1 = Inr (run_info, w1)" ..
  have "\<exists>kvs. run_info = JObj kvs"
    using run_ok unfolding run_info_def
    by (cases "status_code r1 = 200") auto
  then obtain kvs where k: "run_info = JObj kvs" ..
  have "\<exists>w2. fetched ''jobs'' r2 = Inr (jobs_info, w2)"
    using jobs_ok unfolding jobs_info_def
    by (cases "status_code r2 = 200") (auto simp: fetched_other_status fetched_ok)
  then obtain w2 where f2: "fetched ''jobs'' r2 = Inr (jobs_info, w2)" ..
  have o2: "status_code r2 = 200 \<longrightarrow> jobs_ok jobs_info"
    using jobs_ok unfolding jobs_info_def by auto
  have p: "run_projection run_info = Inr (JObj (map (\<lambda>k. (k, obj_get kvs k)) run_fields))"
    using k by (simp add: run_projection_def)
  obtain js where j: "jobs_summary jobs_info = Inr js" and e: "status_code r2 \<noteq> 200 \<longrightarrow> js = []"
  proof (cases "status_code r2 = 200")
    case True
    with o2 jobs_summary_ok obtain js where "jobs_summary jobs_info = Inr js" by blast
    with True that show ?thesis by simp
  next
    case False
    then have "jobs_summary jobs_info = Inr []"
      by (simp add: jobs_info_def jobs_summary_error)
    with that show ?thesis by simp
  qed
  have "fetch_main repo run_id out_path a env http dump fs =
         (case dump (JObj
            [(''run'', JObj (map (\<lambda>k. (k, obj_get kvs k)) run_fields)),
             (''jobs_summary'', JArr js),
             (''raw_run'', run_info), (''raw_jobs'', jobs_info)]) of
            Inr text \<Rightarrow>
              (finished 0 [] (w1 @ w2)
                 [get_request (run_url repo run_id) t, get_request (jobs_url repo run_id) t],
               store fs q text)
          | Inl (e, partial) \<Rightarrow>
              (crashed e [] (w1 @ w2)
                 [get_request (run_url repo run_id) t, get_request (jobs_url repo run_id) t],
               store fs q partial))"
    by (simp add: fetch_main_def tok r1 r2 f1 f2 p j out Let_def split: sum.splits prod.splits)
  with k j e show ?thesis
    unfolding run_info_def jobs_info_def
    by (intro exI [of _ kvs] exI [of _ js] exI [of _ "w1 @ w2"] conjI)
qed

theorem fetch_summary_witness:
  "(\<exists>w. fetch_main ''o/r'' ''42'' ''out.json'' (Some ''t0k'') no_env not_found example_dump
          no_files =
       (finished 0 [] w
          [get_request (run_url ''o/r'' ''42'') ''t0k'', get_request (jobs_url ''o/r'' ''42'') ''t0k''],
        store no_files ''out.json'' not_found_text))
   \<and> (\<exists>w. fetch_main ''o/r'' ''42'' ''out.json'' (Some ''t0k'') no_env provider example_dump
          no_files =
       (finished 0 [] w
          [get_request (run_url ''o/r'' ''42'') ''t0k'', get_request (jobs_url ''o/r'' ''42'') ''t0k''],
        store no_files ''out.json'' provider_text))
   \<and> (\<exists>w. fetch_main ''o/r'' ''42'' ''out.json'' (Some ''t0k'') no_env not_found failing_dump
          no_files =
       (crashed UnicodeEncodeError [] w
          [get_request (run_url ''o/r'' ''42'') ''t0k'', get_request (jobs_url ''o/r'' ''42'') ''t0k''],
        store no_files ''out.json'' ''{''))"
proof -
  let ?nf = "\<lparr>status_code = 404, resp_text = ''Not Found'', resp_json = None\<rparr>"
  have t: "resolve_token (Some ''t0k'') no_env = Some ''t0k''" "''t0k'' \<noteq> []"
    by (simp_all add: resolve_arg)
  have o: "open_for_writing no_files ''out.json'' = Inr ''out.json''"
    by (simp add: open_for_writing_def no_files_def spelled_def)
  have n1: "not_found (get_request (run_url ''o/r'' ''42'') ''t0k'') = Inr ?nf"
    and n2: "not_found (get_request (jobs_url ''o/r'' ''42'') ''t0k'') = Inr ?nf"
    by (simp_all add: not_found_def)
  have h1: "status_code ?nf = 200 \<longrightarrow> (\<exists>kvs. resp_json ?nf = Some (JObj kvs))"
    and h2: "status_code ?nf = 200 \<longrightarrow> (\<exists>j. resp_json ?nf = Some j \<and> jobs_ok j)"
    by simp_all
  have s1: "JObj [(''run'', JObj (map (\<lambda>k. (k, obj_get [(''error'', JStr ''Not Found'')] k))
                                  run_fields)),
                  (''jobs_summary'', JArr []),
                  (''raw_run'', JObj [(''error'', JStr ''Not Found'')]),
                  (''raw_jobs'', JObj [(''error'', JStr ''Not Found'')])] = not_found_summary"
    by (simp add: not_found_summary_def run_fields_def obj_get_def)
  have d1: "example_dump not_found_summary = Inr not_found_text"
    by (simp add: example_dump_def)
  have 1: "\<exists>w. fetch_main ''o/r'' ''42'' ''out.json'' (Some ''t0k'') no_env not_found
        example_dump no_files =
       (finished 0 [] w
          [get_request (run_url ''o/r'' ''42'') ''t0k'', get_request (jobs_url ''o/r'' ''42'') ''t0k''],
        store no_files ''out.json'' not_found_text)"
    using fetch_summary [where http = not_found and dump = example_dump, OF t n1 n2 h1 h2 o]
    by (auto simp: s1 d1)
  have d3: "failing_dump not_found_summary = Inl (UnicodeEncodeError, ''{'')"
    by (simp add: failing_dump_def)
  have 3: "\<exists>w. fetch_main ''o/r'' ''42'' ''out.json'' (Some ''t0k'') no_env not_found
        failing_dump no_files =
       (crashed UnicodeEncodeError [] w
          [get_request (run_url ''o/r'' ''42'') ''t0k'', get_request (jobs_url ''o/r'' ''42'') ''t0k''],
        store no_files ''out.json'' ''{'')"
    using fetch_summary [where http = not_found and dump = failing_dump, OF t n1 n2 h1 h2 o]
    by (auto simp: s1 d3)
  let ?p1 = "\<lparr>status_code = 200,
                resp_text = ''{'' @ dq ''id'' @ '': 42, '' @ dq ''status'' @ '': ''
                            @ dq ''completed'' @ ''}'',
                resp_json = Some run_body\<rparr>"
  let ?p2 = "\<lparr>status_code = 200,
                resp_text = ''{'' @ dq ''jobs'' @ '': [{'' @ dq ''id'' @ '': 7, '' @ dq ''name''
                            @ '': '' @ dq ''build'' @ ''}]}'',
                resp_json = Some jobs_body\<rparr>"
  have u: "run_url ''o/r'' ''42'' \<noteq> jobs_url ''o/r'' ''42''"
    by (simp add: jobs_url_def)
  have p1: "provider (get_request (run_url ''o/r'' ''42'') ''t0k'') = Inr ?p1"
    using u by (simp add: provider_def get_request_def)
  have p2: "provider (get_request (jobs_url ''o/r'' ''42'') ''t0k'') = Inr ?p2"
    by (simp add: provider_def get_request_def)
  have g1: "status_code ?p1 = 200 \<longrightarrow> (\<exists>kvs. resp_json ?p1 = Some (JObj kvs))"
    by (simp add: run_body_def)
  have j: "jobs_ok jobs_body"
    by (simp add: jobs_ok_def jobs_body_def is_obj_def)
  have g2: "status_code ?p2 = 200 \<longrightarrow> (\<exists>j. resp_json ?p2 = Some j \<and> jobs_ok j)"
    using j by simp
  have js: "jobs_summary jobs_body =
      Inr [JObj [(''id'', JInt 7), (''name'', JStr ''build''), (''status'', JNull),
                 (''conclusion'', JNull), (''html_url'', JNull)]]"
    by (simp add: jobs_summary_def jobs_body_def iterate_def job_projection_def
        job_fields_def obj_get_def)
  have s2: "JObj [(''run'', JObj (map (\<lambda>k. (k, obj_get [(''id'', JInt 42),
                                   (''status'', JStr ''completed'')] k)) run_fields)),
                  (''jobs_summary'',
                     JArr [JObj [(''id'', JInt 7), (''name'', JStr ''build''), (''status'', JNull),
                                 (''conclusion'', JNull), (''html_url'', JNull)]]),
                  (''raw_run'', run_body),
                  (''raw_jobs'', jobs_body)] = provider_summary"
    by (simp add: provider_summary_def run_fields_def obj_get_def)
  have d2: "example_dump provider_summary = Inr provider_text"
    by (simp add: example_dump_def provider_summary_def not_found_summary_def)
  from fetch_summary [where http = provider and dump = example_dump, OF t p1 p2 g1 g2 o]
  obtain kvs js' w where
    a: "the (resp_json ?p1) = JObj kvs"
    and b: "jobs_summary (the (resp_json ?p2)) = Inr js'"
    and c: "fetch_main ''o/r'' ''42'' ''out.json'' (Some ''t0k'') no_env provider example_dump
          no_files =
         (case example_dump (JObj
            [(''run'', JObj (map (\<lambda>k. (k, obj_get kvs k)) run_fields)),
             (''jobs_summary'', JArr js'),
             (''raw_run'', the (resp_json ?p1)),
             (''raw_jobs'', the (resp_json ?p2))]) of
            Inr text \<Rightarrow>
              (finished 0 [] w
                 [get_request (run_url ''o/r'' ''42'') ''t0k'',
                  get_request (jobs_url ''o/r'' ''42'') ''t0k''],
               store no_files ''out.json'' text)
          | Inl (e, partial) \<Rightarrow>
              (crashed e [] w
                 [get_request (run_url ''o/r'' ''42'') ''t0k'',
                  get_request (jobs_url ''o/r'' ''42'') ''t0k''],
               store no_files ''out.json'' partial))"
    by auto
  from a have kv: "kvs = [(''id'', JInt 42), (''status'', JStr ''completed'')]"
    by (simp add: run_body_def)
  from b js have jv: "js' = [JObj [(''id'', JInt 7), (''name'', JStr ''build''),
      (''status'', JNull), (''conclusion'', JNull), (''html_url'', JNull)]]"
    by simp
  have 2: "\<exists>w. fetch_main ''o/r'' ''42'' ''out.json'' (Some ''t0k'') no_env provider
        example_dump no_files =
       (finished 0 [] w
          [get_request (run_url ''o/r'' ''42'') ''t0k'', get_request (jobs_url ''o/r'' ''42'') ''t0k''],
        store no_files ''out.json'' provider_text)"
    using c unfolding kv jv by (auto simp: s2 d2)
  from 1 2 3 show ?thesis by (intro conjI)
qed

subsection \<open>The patch generator\<close>

lemma store_simps [simp]:
  "nodes (store fs q s) = (nodes fs)(q \<mapsto> File s)"
  "canon (store fs q s) = canon fs"
  "refuses (store fs q s) = refuses fs"
  by (simp_all add: store_def)

lemma store_store [simp]: "store (store fs q s) q t = store fs q t"
  by (simp add: store_def)

lemma cleared_simps [simp]:
  "canon (cleared fs p) = canon fs" "refuses (cleared fs p) = refuses fs"
  by (simp_all add: cleared_def)

lemma nodes_cleared:
  "nodes (cleared fs p) x = (if path_exists fs p \<and> x = canon fs p then None else nodes fs x)"
  by (simp add: cleared_def)

lemma nodes_cleared_self: "p \<noteq> [] \<Longrightarrow> nodes (cleared fs p) (canon fs p) = None"
  by (auto simp: nodes_cleared path_exists_def)

lemma store_cleared [simp]: "store (cleared fs p) (canon fs p) t = store fs (canon fs p) t"
  by (simp add: cleared_def store_def)

lemma open_for_writing_Inr:
  "open_for_writing fs p = Inr q \<Longrightarrow>
     q = canon fs p \<and> p \<noteq> [] \<and> nodes fs (canon fs p) \<noteq> Some Dir"
  by (auto simp: open_for_writing_def split: if_splits option.splits node.splits)

lemma open_for_writing_ok: "can_write fs p \<Longrightarrow> open_for_writing fs p = Inr (canon fs p)"
  by (auto simp: open_for_writing_def can_write_def split: option.splits node.splits)

lemma append_text_eq:
  "append_text fs p s =
     (case open_for_writing fs p of
        Inl e \<Rightarrow> Inl e
      | Inr q \<Rightarrow> Inr (store fs q (content fs p @ s)))"
  by (auto simp: append_text_def content_def dest!: open_for_writing_Inr
      split: sum.splits option.splits node.splits)

lemma append_text_ok:
  "can_write fs p \<Longrightarrow> append_text fs p s = Inr (store fs (canon fs p) (content fs p @ s))"
  by (simp add: append_text_eq open_for_writing_ok)


lemma req_path_nonempty [simp]: "req_path repo_root \<noteq> []"
  by (simp add: req_path_def path_join_def)

lemma make_new_file_diff_nonempty [simp]: "make_new_file_diff p rel ls \<noteq> []"
  by (simp add: make_new_file_diff_def Let_def)

lemma make_update_file_diff_nonempty [simp]: "make_update_file_diff p rel a b \<noteq> []"
  by (simp add: make_update_file_diff_def)

lemma path_exists_req:
  "path_exists fs (req_path repo_root) \<longleftrightarrow> nodes fs (canon fs (req_path repo_root)) \<noteq> None"
  by (simp add: path_exists_def)

lemma write_requirements_patch_result:
  assumes o: "can_write fs out_path"
    and r: "nodes fs (canon fs (req_path repo_root)) = None \<or> readable fs (req_path repo_root)"
  shows "write_requirements_patch out_path repo_root missing fs =
     (let t = requirements_text repo_root missing (nodes fs (canon fs (req_path repo_root))) in
      if t = [] then Inr (False, fs)
      else Inr (True, store fs (canon fs out_path) (content fs out_path @ t)))"
proof (cases "nodes fs (canon fs (req_path repo_root))")
  case None
  with o show ?thesis
    by (simp add: write_requirements_patch_def requirements_text_def path_exists_req
        append_text_ok req_path_def [symmetric] Let_def)
next
  case (Some n)
  with r obtain c where c: "nodes fs (canon fs (req_path repo_root)) = Some (File c)"
    and d: "refuses fs Reading (canon fs (req_path repo_root)) = None"
    by (cases n) (auto simp: readable_def)
  with o show ?thesis
    by (simp add: write_requirements_patch_def requirements_text_def path_exists_req
        read_text_def append_text_ok req_path_def [symmetric] Let_def)
qed

lemma write_system_deps_patch_result:
  assumes "can_write fs out_path"
  shows "write_system_deps_patch out_path repo_root hdrs fs =
     (let t = system_deps_text repo_root hdrs in
      if t = [] then Inr (False, fs)
      else Inr (True, store fs (canon fs out_path) (content fs out_path @ t)))"
  using assms
  by (simp add: write_system_deps_patch_def system_deps_text_def append_text_ok Let_def)

lemma remove_step:
  assumes "can_replace fs out_path"
  shows "(if path_exists fs out_path then remove_file fs out_path else Inr fs)
     = Inr (cleared fs out_path)"
  using assms
  by (auto simp: can_replace_def can_write_def path_exists_def remove_file_def cleared_def
      split: option.splits node.splits)

lemma can_write_store [simp]:
  "can_write (store fs (canon fs p) s) p \<longleftrightarrow>
     p \<noteq> [] \<and> refuses fs Writing (canon fs p) = None \<and> refuses fs Creating (canon fs p) = None"
  by (simp add: can_write_def)

lemma can_write_cleared: "can_write fs p \<Longrightarrow> can_write (cleared fs p) p"
  by (auto simp: can_write_def nodes_cleared)

lemma content_store [simp]: "content (store fs (canon fs p) s) p = s"
  by (simp add: content_def)

lemma content_cleared: "p \<noteq> [] \<Longrightarrow> content (cleared fs p) p = []"
  by (simp add: content_def nodes_cleared_self)

lemma heuristics_result:
  assumes l: "read_text fs logs_path = Inr logs"
    and o: "can_replace fs out_path"
    and r: "same_file fs (req_path repo_root) out_path
            \<or> nodes fs (canon fs (req_path repo_root)) = None
            \<or> readable fs (req_path repo_root)"
  shows "heuristics_make_patch logs_path repo_root out_path fs =
     Inr (store fs (canon fs out_path)
            (patch_text repo_root logs (nodes (cleared fs out_path) (canon fs (req_path repo_root)))))"
proof -
  define q where "q = canon fs out_path"
  define fs1 where "fs1 = cleared fs out_path"
  from o have w: "can_write fs out_path" and ne: "out_path \<noteq> []"
    by (simp_all add: can_replace_def can_write_def)
  from w have wc: "refuses fs Writing q = None" "refuses fs Creating q = None"
    by (simp_all add: can_write_def q_def)
  have rm: "(if path_exists fs out_path then remove_file fs out_path else Inr fs) = Inr fs1"
    unfolding fs1_def by (rule remove_step [OF o])
  have o1: "can_write fs1 out_path" and c1: "content fs1 out_path = []"
    using w ne by (simp_all add: fs1_def can_write_cleared content_cleared)
  have k1: "canon fs1 = canon fs" by (simp add: fs1_def)
  have r1: "nodes fs1 (canon fs1 (req_path repo_root)) = None
            \<or> readable fs1 (req_path repo_root)"
    using r ne
    by (auto simp: fs1_def same_file_def readable_def nodes_cleared path_exists_def)
  define t where "t = requirements_text repo_root (missing_list logs)
      (nodes fs1 (canon fs (req_path repo_root)))"
  define h where "h = system_deps_text repo_root (missing_headers logs)"
  define fs2 where "fs2 = (if t = [] then fs1 else store fs q t)"
  have w1: "write_requirements_patch out_path repo_root (missing_list logs) fs1
      = Inr (t \<noteq> [], fs2)"
    using write_requirements_patch_result [where fs = fs1 and missing = "missing_list logs",
        OF o1 r1, unfolded k1, folded t_def]
    unfolding fs1_def fs2_def q_def by (simp add: Let_def content_cleared [OF ne])
  have o2: "can_write fs2 out_path" and c2: "content fs2 out_path = t"
    and k2: "canon fs2 = canon fs"
    using o1 c1 ne wc by (simp_all add: fs2_def k1 q_def)
  define fs3 where "fs3 = (if h = [] then fs2 else store fs q (t @ h))"
  have w2: "write_system_deps_patch out_path repo_root (missing_headers logs) fs2
      = Inr (h \<noteq> [], fs3)"
    using write_system_deps_patch_result [where fs = fs2 and hdrs = "missing_headers logs"
        and repo_root = repo_root, OF o2, unfolded k2 c2, folded h_def]
    unfolding fs3_def by (auto simp: Let_def fs2_def fs1_def q_def)
  have o3: "can_write fs3 out_path" and c3: "content fs3 out_path = t @ h"
    and k3: "canon fs3 = canon fs"
    using o2 c2 ne wc by (simp_all add: fs3_def k2 q_def)
  have "heuristics_make_patch logs_path repo_root out_path fs =
      (if \<not> (h \<noteq> [] \<or> t \<noteq> []) then Inr (store fs3 q (t @ h @ notice_text))
       else Inr fs3)"
    unfolding heuristics_make_patch_def
    by (simp add: l rm w1 w2 append_text_ok [where fs = fs3, OF o3] c3 k3 q_def
        notice_text_def Let_def)
  also have "\<dots> = Inr (store fs q (if t = [] \<and> h = [] then notice_text else t @ h))"
    by (auto simp: fs3_def fs2_def fs1_def q_def)
  finally show ?thesis
    by (simp add: patch_text_def t_def h_def fs1_def q_def Let_def)
qed

lemma unified_diff_fragment:
  "is_update_fragment rel (unified_diff a b (''a/'' @ rel) (''b/'' @ rel))"
  by (auto simp: is_update_fragment_def unified_diff_def Let_def list_all_iff)

lemma added_lines_unified_diff: "added_lines (unified_diff a (a @ added) f t) = added"
proof -
  have "filter (\<lambda>l. take 1 l = ''+'') (map ((#) CHR '' '') xs) = []" for xs :: "string list"
    by (induction xs) auto
  moreover have "filter (\<lambda>l. take 1 l = ''+'') (map ((#) CHR ''+'') xs) = map ((#) CHR ''+'') xs"
    for xs :: "string list"
    by (induction xs) auto
  ultimately show ?thesis
    by (simp add: added_lines_def unified_diff_def Let_def comp_def)
qed

text \<open>
  Claim C6. When the dependency list exists and modules are missing, the step looks at
  the missing modules that equal no stripped line of the file. If there is none, it
  writes nothing and reports so. Otherwise it appends one update fragment to the
  output file, and the lines that the fragment adds are exactly those modules, in
  their order. With the content \<^verbatim>\<open>foo\<close> and the modules \<^verbatim>\<open>bar\<close> and \<^verbatim>\<open>foo\<close> only \<^verbatim>\<open>bar\<close> is added.
  The step raises only what reading the dependency list or opening the output file raises.
\<close>

theorem requirements_update_added_lines:
  assumes "nodes fs (canon fs (path_join repo_root ''requirements.txt'')) = Some (File c)"
    and "missing \<noteq> []"
  shows "(let old = splitlines (universal_newlines c);
              added = filter (\<lambda>m. m \<notin> set (map strip old)) missing;
              ls = unified_diff old (old @ added) ''a/requirements.txt'' ''b/requirements.txt''
          in write_requirements_patch out_path repo_root missing fs =
               (case refuses fs Reading (canon fs (path_join repo_root ''requirements.txt'')) of
                  Some e \<Rightarrow> Inl e
                | None \<Rightarrow>
                    if added = [] then Inr (False, fs)
                    else
                      (case open_for_writing fs out_path of
                         Inl e \<Rightarrow> Inl e
                       | Inr q \<Rightarrow>
                           Inr (True, store fs q (content fs out_path @ join_nl ls @ [LF]))))
             \<and> added_lines ls = added
             \<and> set added = set missing - set (map strip old)
             \<and> is_update_fragment ''requirements.txt'' ls)"
proof -
  define old where "old = splitlines (universal_newlines c)"
  define added where "added = filter (\<lambda>m. m \<notin> set (map strip old)) missing"
  define ls where
    "ls = unified_diff old (old @ added) ''a/requirements.txt'' ''b/requirements.txt''"
  have ne: "path_join repo_root ''requirements.txt'' \<noteq> []"
    using req_path_nonempty [of repo_root] by (simp add: req_path_def)
  have w: "write_requirements_patch out_path repo_root missing fs =
      (case refuses fs Reading (canon fs (path_join repo_root ''requirements.txt'')) of
         Some e \<Rightarrow> Inl e
       | None \<Rightarrow>
           if added = [] then Inr (False, fs)
           else
             (case open_for_writing fs out_path of
                Inl e \<Rightarrow> Inl e
              | Inr q \<Rightarrow> Inr (True, store fs q (content fs out_path @ join_nl ls @ [LF]))))"
    using assms ne
    by (simp add: write_requirements_patch_def path_exists_def read_text_def append_text_eq
        make_update_file_diff_def old_def added_def ls_def Let_def
        split: option.splits sum.splits)
  have a: "added_lines ls = added"
    unfolding ls_def by (rule added_lines_unified_diff)
  have s: "set added = set missing - set (map strip old)"
    unfolding added_def by auto
  have u: "is_update_fragment ''requirements.txt'' ls"
    using unified_diff_fragment [of "''requirements.txt''" old "old @ added"]
    by (simp add: ls_def)
  from w a s u show ?thesis
    unfolding Let_def old_def [symmetric] added_def [symmetric] ls_def [symmetric]
    by (intro conjI)
qed

theorem requirements_update_added_lines_witness:
  "write_requirements_patch ''fix.patch'' ''.'' [''bar'', ''foo''] example_requirements =
     Inr (True, store example_requirements ''fix.patch'' example_update_diff)
   \<and> added_lines (unified_diff [''foo''] [''foo'', ''bar'']
         ''a/requirements.txt'' ''b/requirements.txt'') = [''bar'']
   \<and> write_requirements_patch ''fix.patch'' ''.'' [''foo''] example_requirements =
     Inr (False, example_requirements)"
proof -
  have p: "path_join ''.'' ''requirements.txt'' = ''./requirements.txt''"
    by code_simp
  have f: "nodes example_requirements
      (canon example_requirements (path_join ''.'' ''requirements.txt'')) = Some (File ''foo'')"
    by (simp add: p example_requirements_def spelled_def)
  have g: "refuses example_requirements Reading
      (canon example_requirements (path_join ''.'' ''requirements.txt'')) = None"
    by (simp add: example_requirements_def spelled_def)
  have o: "open_for_writing example_requirements ''fix.patch'' = Inr ''fix.patch''"
    and c: "content example_requirements ''fix.patch'' = []"
    by (simp_all add: example_requirements_def spelled_def open_for_writing_def content_def)
  have old: "splitlines (universal_newlines ''foo'') = [''foo'']"
    by code_simp
  have a: "filter (\<lambda>m. m \<notin> set (map strip [''foo''])) [''bar'', ''foo''] = [''bar'']"
    and b: "filter (\<lambda>m. m \<notin> set (map strip [''foo''])) [''foo''] = []"
    by code_simp+
  have d: "join_nl (unified_diff [''foo''] ([''foo''] @ [''bar''])
      ''a/requirements.txt'' ''b/requirements.txt'') @ [LF] = example_update_diff"
    by code_simp
  have n: "[''bar'', ''foo''] \<noteq> ([] :: string list)" "[''foo''] \<noteq> ([] :: string list)"
    by simp_all
  from requirements_update_added_lines [where out_path = "''fix.patch''", OF f n(1)]
  have 1: "write_requirements_patch ''fix.patch'' ''.'' [''bar'', ''foo''] example_requirements =
     Inr (True, store example_requirements ''fix.patch'' example_update_diff)"
    and 2: "added_lines (unified_diff [''foo''] [''foo'', ''bar'']
         ''a/requirements.txt'' ''b/requirements.txt'') = [''bar'']"
    unfolding Let_def old a g o c using d by simp_all
  from requirements_update_added_lines [where out_path = "''fix.patch''", OF f n(2)]
  have 3: "write_requirements_patch ''fix.patch'' ''.'' [''foo''] example_requirements =
     Inr (False, example_requirements)"
    unfolding Let_def old b g by simp
  from 1 2 3 show ?thesis by (intro conjI)
qed






lemma single_line_simps [simp]:
  "single_line []" "single_line (c # cs) \<longleftrightarrow> c \<noteq> LF \<and> single_line cs"
  "single_line (xs @ ys) \<longleftrightarrow> single_line xs \<and> single_line ys"
  by (auto simp: single_line_def)

lemma digit_not_LF: "d < 10 \<Longrightarrow> digit d \<noteq> LF"
proof -
  assume "d < 10"
  then have "of_char (digit d) = 48 + d"
    by (simp add: digit_def)
  moreover have "of_char LF = (10 :: nat)" by (simp add: LF_def)
  ultimately show ?thesis by auto
qed

lemma single_line_str_nat [simp]: "single_line (str_nat n)"
proof (induction n rule: str_nat.induct)
  case (1 n)
  show ?case
  proof (cases "n < 10")
    case True
    then show ?thesis by (simp add: str_nat.simps [of n] digit_not_LF)
  next
    case False
    with 1 show ?thesis by (simp add: str_nat.simps [of n] digit_not_LF)
  qed
qed


lemma LF_char [simp]: "CHR ''+'' \<noteq> LF" "CHR '' '' \<noteq> LF" "CHR '','' \<noteq> LF"
  "CHR ''-'' \<noteq> LF" "CHR ''@'' \<noteq> LF"
  by (simp_all add: LF_def)


lemma single_line_format_range [simp]: "single_line (format_range_unified a b)"
  by (simp add: format_range_unified_def Let_def LF_def)




















lemma example_new_patch:
  "patch_text ''.'' (universal_newlines module_example_log) None = example_new_diff"
  by code_simp

lemma example_notice_patch:
  "patch_text ''.'' (universal_newlines example_new_diff) None = example_notice"
  by code_simp

lemma req_path_dot: "req_path ''.'' = ''./requirements.txt''"
  by code_simp


text \<open>
  The same happens when the output path is another spelling of the log path.
\<close>

lemma rerun_alias_example:
  "generate_main ''ci.log'' ''.'' ''./ci.log'' no_env None alias_fs
     = (finished 0 [[S ''Wrote heuristic patch to'', S ''./ci.log'']] [] [],
        store alias_fs ''ci.log'' example_new_diff)
   \<and> generate_main ''ci.log'' ''.'' ''./ci.log'' no_env None
         (store alias_fs ''ci.log'' example_new_diff)
     = (finished 0 [[S ''Wrote heuristic patch to'', S ''./ci.log'']] [] [],
        store alias_fs ''ci.log'' example_notice)"
proof -
  have k: "\<not> truthy (no_env ''OPENAI_API_KEY'')" by (simp add: truthy_def no_env_def)
  have c: "canon alias_fs ''./ci.log'' = ''ci.log''" "canon alias_fs ''ci.log'' = ''ci.log''"
    "canon alias_fs ''./requirements.txt'' = ''requirements.txt''"
    by (simp_all add: alias_fs_def relative_def undotted_def)
  have l: "read_text alias_fs ''ci.log'' = Inr (universal_newlines module_example_log)"
    and o: "can_replace alias_fs ''./ci.log''"
    and r: "nodes alias_fs (canon alias_fs (req_path ''.'')) = None"
    by (simp_all add: req_path_dot read_text_def can_replace_def can_write_def alias_fs_def
        relative_def undotted_def)
  have n: "nodes (cleared alias_fs ''./ci.log'') ''requirements.txt'' = None"
    by (simp add: nodes_cleared alias_fs_def relative_def undotted_def)
  from r have "same_file alias_fs (req_path ''.'') ''./ci.log''
      \<or> nodes alias_fs (canon alias_fs (req_path ''.'')) = None
      \<or> readable alias_fs (req_path ''.'')" by simp
  from heuristics_result [OF l o this]
  have h1: "heuristics_make_patch ''ci.log'' ''.'' ''./ci.log'' alias_fs
      = Inr (store alias_fs ''ci.log'' example_new_diff)"
    by (simp add: c req_path_dot n example_new_patch)
  define fs1 where "fs1 = store alias_fs ''ci.log'' example_new_diff"
  have c1: "canon fs1 = canon alias_fs" by (simp add: fs1_def)
  have l1: "read_text fs1 ''ci.log'' = Inr (universal_newlines example_new_diff)"
    and o1: "can_replace fs1 ''./ci.log''"
    and r1: "nodes fs1 (canon fs1 (req_path ''.'')) = None"
    by (simp_all add: fs1_def req_path_dot read_text_def can_replace_def can_write_def
        alias_fs_def relative_def undotted_def)
  have n1: "nodes (cleared fs1 ''./ci.log'') ''requirements.txt'' = None"
    by (simp add: nodes_cleared fs1_def alias_fs_def relative_def undotted_def)
  from r1 have "same_file fs1 (req_path ''.'') ''./ci.log''
      \<or> nodes fs1 (canon fs1 (req_path ''.'')) = None
      \<or> readable fs1 (req_path ''.'')" by simp
  from heuristics_result [OF l1 o1 this]
  have h2: "heuristics_make_patch ''ci.log'' ''.'' ''./ci.log'' fs1
      = Inr (store alias_fs ''ci.log'' example_notice)"
    by (simp add: c1 c req_path_dot n1 example_notice_patch) (simp add: fs1_def)
  have 1: "generate_main ''ci.log'' ''.'' ''./ci.log'' no_env None alias_fs
     = (finished 0 [[S ''Wrote heuristic patch to'', S ''./ci.log'']] [] [],
        store alias_fs ''ci.log'' example_new_diff)"
    using k by (simp add: generate_main_def h1)
  have 2: "generate_main ''ci.log'' ''.'' ''./ci.log'' no_env None
         (store alias_fs ''ci.log'' example_new_diff)
     = (finished 0 [[S ''Wrote heuristic patch to'', S ''./ci.log'']] [] [],
        store alias_fs ''ci.log'' example_notice)"
    using k h2 by (simp add: generate_main_def fs1_def)
  from 1 2 show ?thesis by (rule conjI)
qed






lemma fragments_text_simps [simp]:
  "fragments_text [] = []"
  "fragments_text (ls # frags) = join_nl ls @ [LF] @ fragments_text frags"
  by (simp_all add: fragments_text_def)










lemma no_signature_in_empty_log [simp]: "missing_list [] = []" "missing_headers [] = []"
  by code_simp+



text \<open>
  It fails as well when the log is there and the output file cannot be opened: with the
  empty output path the exception of \<^verbatim>\<open>open\<close> escapes from the step that writes the notice.
\<close>

lemma unwritable_output_example:
  "generate_main ''ci.log'' ''.'' [] no_env None quiet_fs
     = (crashed FileNotFoundError [] [] [], quiet_fs)"
proof -
  have "missing_list (universal_newlines ''all tests passed'') = []"
    "missing_headers (universal_newlines ''all tests passed'') = []"
    by code_simp+
  then show ?thesis
    by (simp add: generate_main_def truthy_def heuristics_make_patch_def read_text_def
        path_exists_def write_requirements_patch_def write_system_deps_patch_def
        append_text_def open_for_writing_def no_env_def quiet_fs_def spelled_def)
qed


end
